theory Spec2Isabelle
  imports Main "HOL-Library.Multiset"
begin

section \<open>Data model\<close>

text \<open>
  The models of \<^verbatim>\<open>inventory/models.py\<close>, \<^verbatim>\<open>finance/models.py\<close> and
  \<^verbatim>\<open>sales/models.py\<close> as records. A \<^verbatim>\<open>UUIDField\<close> is a natural number, a
  \<^verbatim>\<open>DateTimeField\<close> a natural number of ticks. A \<^verbatim>\<open>DecimalField\<close> with
  \<open>d\<close> decimal places is the integer count of its units of \<open>10\<^sup>-\<^sup>d\<close>: a quantity
  (3 places) is a number of thousandths, an amount of money (2 places) a number of
  hundredths. A sum that Python takes over such decimals (\<^verbatim>\<open>sum(...)\<close> in a serializer)
  is exact integer addition: the default decimal context of 28 significant digits is out
  of reach of 15-digit fields. A sum that the database takes is the backend's own, see
  \<open>sql_sum\<close> below.
\<close>

type_synonym uuid = nat
type_synonym datetime = nat
type_synonym decimal = int

datatype movement_type =
  MT_IN | MT_OUT | MT_ADJUSTMENT | MT_TRANSFER_IN | MT_TRANSFER_OUT | MT_SALE | MT_REFUND

datatype movement_reference_type = MR_SALE | MR_PURCHASE | MR_MANUAL

datatype ledger_reference_type = LR_SALE | LR_REFUND | LR_ADJUSTMENT

datatype account_type = ASSET | LIABILITY | INCOME | EXPENSE

datatype sale_status = PENDING | COMPLETED | VOIDED | REFUNDED

record Product =
  product_id :: uuid
  product_sku :: string
  product_name :: string
  product_unit_cost :: decimal
  product_unit_price :: decimal
  product_track_stock :: bool
  product_is_active :: bool

record Warehouse =
  warehouse_id :: uuid
  warehouse_name :: string
  warehouse_is_active :: bool

record StockMovement =
  sm_id :: uuid
  sm_product :: uuid
  sm_warehouse :: uuid
  sm_movement_type :: movement_type
  sm_quantity :: decimal
  sm_reference_type :: movement_reference_type
  sm_reference_id :: "uuid option"
  sm_created_by :: uuid
  sm_created_at :: datetime

record Account =
  account_id :: uuid
  account_name :: string
  account_account_type :: account_type
  account_is_active :: bool

record LedgerEntry =
  le_id :: uuid
  le_account :: uuid
  le_amount :: decimal
  le_reference_type :: ledger_reference_type
  le_reference_id :: uuid
  le_created_at :: datetime

record Sale =
  sale_id :: uuid
  sale_number :: string
  sale_warehouse :: uuid
  sale_sold_by :: uuid
  sale_status :: sale_status
  sale_subtotal :: decimal
  sale_tax_total :: decimal
  sale_discount_total :: decimal
  sale_grand_total :: decimal
  sale_created_at :: datetime

record SaleItem =
  si_id :: uuid
  si_sale :: uuid
  si_product :: uuid
  si_quantity :: decimal
  si_unit_price :: decimal
  si_line_total :: decimal

text \<open>
  \<^verbatim>\<open>audit/models.py\<close>: an audit log row. The two JSON snapshots hold a sale, its items
  and the identifiers of the events generated for it.
\<close>

datatype audit_action = AUDIT_CREATE | AUDIT_UPDATE | AUDIT_DELETE | AUDIT_VOID

record snapshot =
  snap_sale :: Sale
  snap_items :: "SaleItem list"
  snap_event_ids :: "uuid list"

record AuditLog =
  audit_id :: uuid
  audit_user :: uuid
  audit_action :: audit_action
  audit_entity_type :: string
  audit_entity_id :: uuid
  audit_before_state :: "snapshot option"
  audit_after_state :: "snapshot option"
  audit_created_at :: datetime

text \<open>
  The tables of the database the views, serializers and admin classes work on, and
  \<open>sql_sum\<close>, the result of SQL's SUM over the values of a decimal column of some rows,
  as the backend in use returns it to the ORM. The sources fix no backend: the sum is exact
  over a NUMERIC column (PostgreSQL, MySQL), a floating-point sum cut to 15 significant
  digits on SQLite.
\<close>

record database =
  sql_sum :: "decimal list \<Rightarrow> decimal"
  users :: "uuid list"
  products :: "Product list"
  warehouses :: "Warehouse list"
  accounts :: "Account list"
  stock_movements :: "StockMovement list"
  ledger_entries :: "LedgerEntry list"
  sales :: "Sale list"
  sale_items :: "SaleItem list"
  audit_logs :: "AuditLog list"

definition get_product :: "database \<Rightarrow> uuid \<Rightarrow> Product option" where
  "get_product db pid = find (\<lambda>p. product_id p = pid) (products db)"

definition get_warehouse :: "database \<Rightarrow> uuid \<Rightarrow> Warehouse option" where
  "get_warehouse db wid = find (\<lambda>w. warehouse_id w = wid) (warehouses db)"

definition get_sale :: "database \<Rightarrow> uuid \<Rightarrow> Sale option" where
  "get_sale db sid = find (\<lambda>s. sale_id s = sid) (sales db)"

section \<open>Stock levels (inventory/views.py, StockViewSet)\<close>

text \<open>
  The query of \<^verbatim>\<open>StockViewSet.list\<close>. \<^verbatim>\<open>values('product_id', 'product__sku',
  'product__name', 'warehouse_id', 'warehouse__name')\<close> joins every movement with its
  product and its warehouse (an inner join over the two non-null foreign keys) and keeps
  these five columns: they are the key the later \<^verbatim>\<open>annotate\<close> groups by.
\<close>

type_synonym level_key = "uuid \<times> string \<times> string \<times> uuid \<times> string"

definition values_row :: "database \<Rightarrow> StockMovement \<Rightarrow> (level_key \<times> StockMovement) option" where
  "values_row db m =
     (case get_product db (sm_product m) of
        None \<Rightarrow> None
      | Some p \<Rightarrow>
          (case get_warehouse db (sm_warehouse m) of
             None \<Rightarrow> None
           | Some w \<Rightarrow>
               Some ((sm_product m, product_sku p, product_name p,
                      sm_warehouse m, warehouse_name w), m)))"

definition movement_values :: "database \<Rightarrow> (level_key \<times> StockMovement) list" where
  "movement_values db = List.map_filter (values_row db) (stock_movements db)"

text \<open>
  \<^verbatim>\<open>if product_id: movements = movements.filter(product_id=product_id)\<close> and the same
  for the warehouse: the parameter (\<^verbatim>\<open>product_id\<close>, \<^verbatim>\<open>warehouse_id\<close> of the
  view) is \<open>None\<close> when it is absent or empty.
\<close>

definition filter_product_id ::
  "uuid option \<Rightarrow> (level_key \<times> StockMovement) list \<Rightarrow> (level_key \<times> StockMovement) list" where
  "filter_product_id product_param movements =
     (case product_param of
        None \<Rightarrow> movements
      | Some pid \<Rightarrow> filter (\<lambda>r. sm_product (snd r) = pid) movements)"

definition filter_warehouse_id ::
  "uuid option \<Rightarrow> (level_key \<times> StockMovement) list \<Rightarrow> (level_key \<times> StockMovement) list" where
  "filter_warehouse_id warehouse_param movements =
     (case warehouse_param of
        None \<Rightarrow> movements
      | Some wid \<Rightarrow> filter (\<lambda>r. sm_warehouse (snd r) = wid) movements)"

text \<open>
  The aggregates \<^verbatim>\<open>Sum\<close> and \<^verbatim>\<open>Max\<close> of \<^verbatim>\<open>django.db.models\<close>: SQL's SUM and MAX,
  which are NULL (\<open>None\<close>) over no rows. The sum is computed by the database:
  \<open>backend_sum\<close> is what its backend returns for the rows of a group.
\<close>

definition Sum_agg :: "(decimal list \<Rightarrow> decimal) \<Rightarrow> decimal list \<Rightarrow> decimal option" where
  "Sum_agg backend_sum xs = (if xs = [] then None else Some (backend_sum xs))"

definition Max_agg :: "datetime list \<Rightarrow> datetime option" where
  "Max_agg xs = (if xs = [] then None else Some (Max (set xs)))"

record stock_level =
  lvl_product_id :: uuid
  lvl_product_sku :: string
  lvl_product_name :: string
  lvl_warehouse_id :: uuid
  lvl_warehouse_name :: string
  current_quantity :: "decimal option"
  last_movement :: "datetime option"

definition group_rows :: "level_key \<Rightarrow> (level_key \<times> StockMovement) list \<Rightarrow> StockMovement list" where
  "group_rows k movements = map snd (filter (\<lambda>r. fst r = k) movements)"

definition annotate_group ::
  "(decimal list \<Rightarrow> decimal) \<Rightarrow> (level_key \<times> StockMovement) list \<Rightarrow> level_key \<Rightarrow>
     stock_level" where
  "annotate_group backend_sum movements k =
     (case k of (pid, sku, pname, wid, wname) \<Rightarrow>
        \<lparr>lvl_product_id = pid, lvl_product_sku = sku, lvl_product_name = pname,
         lvl_warehouse_id = wid, lvl_warehouse_name = wname,
         current_quantity = Sum_agg backend_sum (map sm_quantity (group_rows k movements)),
         last_movement = Max_agg (map sm_created_at (group_rows k movements))\<rparr>)"

text \<open>
  \<^verbatim>\<open>movements.annotate(current_quantity=Sum('quantity'), last_movement=Max('created_at'))\<close>
  on a \<^verbatim>\<open>values\<close> queryset: one row for each distinct key among the rows (GROUP BY).
\<close>

definition annotate ::
  "(decimal list \<Rightarrow> decimal) \<Rightarrow> (level_key \<times> StockMovement) list \<Rightarrow> stock_level list" where
  "annotate backend_sum movements =
     map (annotate_group backend_sum movements) (remdups (map fst movements))"

text \<open>\<^verbatim>\<open>.filter(current_quantity__gt=0)\<close>: a NULL quantity does not pass the comparison.\<close>

definition current_quantity_gt_0 :: "stock_level \<Rightarrow> bool" where
  "current_quantity_gt_0 l = (case current_quantity l of None \<Rightarrow> False | Some q \<Rightarrow> 0 < q)"

text \<open>
  The annotated queryset the view builds (lines "Build base query" to "Compute stock
  levels", before the last \<^verbatim>\<open>filter\<close>), and the queryset it hands to the serializer.
\<close>

definition annotated_levels :: "database \<Rightarrow> uuid option \<Rightarrow> uuid option \<Rightarrow> stock_level list" where
  "annotated_levels db product_param warehouse_param =
     annotate (sql_sum db)
       (filter_warehouse_id warehouse_param
         (filter_product_id product_param (movement_values db)))"

definition stock_levels :: "database \<Rightarrow> uuid option \<Rightarrow> uuid option \<Rightarrow> stock_level list" where
  "stock_levels db product_param warehouse_param =
     filter current_quantity_gt_0 (annotated_levels db product_param warehouse_param)"

text \<open>
  The movements of one (product, warehouse) pair, as a multiset: what the claims call
  the movements "for that pair", whatever the order of their insertion.
\<close>

definition pair_movements :: "database \<Rightarrow> uuid \<Rightarrow> uuid \<Rightarrow> StockMovement multiset" where
  "pair_movements db p w =
     filter_mset (\<lambda>m. sm_product m = p \<and> sm_warehouse m = w) (mset (stock_movements db))"

definition filtered_values ::
  "database \<Rightarrow> uuid option \<Rightarrow> uuid option \<Rightarrow> StockMovement list \<Rightarrow>
     (level_key \<times> StockMovement) list" where
  "filtered_values db product_param warehouse_param ms =
     filter_warehouse_id warehouse_param
       (filter_product_id product_param (List.map_filter (values_row db) ms))"

subsection \<open>The request of \<^verbatim>\<open>StockViewSet.list\<close>\<close>

text \<open>
  The exceptions and error responses of the views, serializers and admin classes.
  \<open>AttributeError cls name\<close>: an object of class \<open>cls\<close> has no attribute \<open>name\<close>.
\<close>

datatype py_error =
  AttributeError string string
  | ValidationError string
  | MethodNotAllowed
  | BadRequest string
  | PermissionDenied
  | NotFound
  | ProtectedError
  | IntegrityError

text \<open>
  The values an attribute access or a method call on the request yields: a
  \<^verbatim>\<open>QueryDict\<close> (the pairs of the query string, in order), a string, \<^verbatim>\<open>None\<close>, or an
  object this model does not look into.
\<close>

datatype py_value = QueryDict "(string \<times> string) list" | Str string | NoneValue | Opaque

record request =
  query_params :: "(string \<times> string) list"
  request_user :: uuid

text \<open>
  The attributes of a \<^verbatim>\<open>rest_framework.request.Request\<close>: its own, then those of the
  \<^verbatim>\<open>HttpRequest\<close> it wraps, to which \<^verbatim>\<open>__getattr__\<close> delegates. Any other name raises
  \<^verbatim>\<open>AttributeError\<close>.
\<close>

definition request_attributes :: "string list" where
  "request_attributes =
     [''data'', ''user'', ''auth'', ''authenticators'', ''successful_authenticator'',
      ''content_type'', ''stream'', ''parsers'', ''negotiator'', ''parser_context'',
      ''accepted_renderer'', ''accepted_media_type'', ''version'', ''versioning_scheme'',
      ''FILES'', ''POST'', ''COOKIES'', ''META'', ''method'', ''path'', ''path_info'', ''scheme'',
      ''body'', ''encoding'', ''headers'', ''session'', ''resolver_match'', ''content_params'']"

definition request_getattr :: "'a request_scheme \<Rightarrow> string \<Rightarrow> py_error + py_value" where
  "request_getattr request name =
     (if name = ''query_params'' \<or> name = ''GET'' then Inr (QueryDict (query_params request))
      else if name \<in> set request_attributes then Inr Opaque
      else Inl (AttributeError ''Request'' name))"

text \<open>Attribute access on a value: a \<^verbatim>\<open>QueryDict\<close>, a string and \<^verbatim>\<open>None\<close> have no data attribute.\<close>

definition value_getattr :: "py_value \<Rightarrow> string \<Rightarrow> py_error + py_value" where
  "value_getattr obj name =
     (case obj of
        QueryDict d \<Rightarrow> Inl (AttributeError ''QueryDict'' name)
      | Str s \<Rightarrow> Inl (AttributeError ''str'' name)
      | NoneValue \<Rightarrow> Inl (AttributeError ''NoneType'' name)
      | Opaque \<Rightarrow> Inr Opaque)"

text \<open>
  A method call with one string argument. \<^verbatim>\<open>QueryDict.get(key)\<close> is the last value given
  for the key, \<^verbatim>\<open>None\<close> without one; a \<^verbatim>\<open>QueryDict\<close> has no method \<^verbatim>\<open>params_get\<close>.
\<close>

definition call_method :: "py_value \<Rightarrow> string \<Rightarrow> string \<Rightarrow> py_error + py_value" where
  "call_method obj name arg =
     (case obj of
        QueryDict d \<Rightarrow>
          if name = ''get''
          then Inr (case map_of (rev d) arg of None \<Rightarrow> NoneValue | Some v \<Rightarrow> Str v)
          else Inl (AttributeError ''QueryDict'' name)
      | Str s \<Rightarrow> Inl (AttributeError ''str'' name)
      | NoneValue \<Rightarrow> Inl (AttributeError ''NoneType'' name)
      | Opaque \<Rightarrow> Inr Opaque)"

text \<open>The text of a UUID: here the decimal numeral of the number that stands for it.\<close>

fun parse_digits :: "nat \<Rightarrow> string \<Rightarrow> nat option" where
  "parse_digits acc [] = Some acc"
| "parse_digits acc (c # cs) =
     (if 48 \<le> (of_char c :: nat) \<and> (of_char c :: nat) \<le> 57
      then parse_digits (10 * acc + (of_char c - 48)) cs else None)"

definition uuid_to_python :: "string \<Rightarrow> uuid option" where
  "uuid_to_python s = (if s = [] then None else parse_digits 0 s)"

text \<open>
  \<^verbatim>\<open>if product_id: movements = movements.filter(product_id=product_id)\<close>: a parameter
  that is \<^verbatim>\<open>None\<close> or the empty string is false and filters nothing; any other is
  converted to a UUID by the field, which raises \<^verbatim>\<open>ValidationError\<close> on a text that is
  not one.
\<close>

definition filter_param :: "py_value \<Rightarrow> py_error + uuid option" where
  "filter_param v =
     (case v of
        NoneValue \<Rightarrow> Inr None
      | Str s \<Rightarrow>
          if s = [] then Inr None
          else (case uuid_to_python s of
                  None \<Rightarrow> Inl (ValidationError s)
                | Some u \<Rightarrow> Inr (Some u))
      | QueryDict d \<Rightarrow> Inl (ValidationError ''QueryDict'')
      | Opaque \<Rightarrow> Inl (ValidationError ''object''))"

text \<open>
  \<^verbatim>\<open>StockViewSet.list\<close>, statement by statement:
  \<^verbatim>\<open>product_id = request.query.params_get('product_id')\<close>,
  \<^verbatim>\<open>warehouse_id = request.query.params.get('warehouse_id')\<close>, then the query above.
\<close>

definition StockViewSet_list :: "request \<Rightarrow> database \<Rightarrow> py_error + stock_level list" where
  "StockViewSet_list request db =
     (case request_getattr request ''query'' of
        Inl e \<Rightarrow> Inl e
      | Inr query \<Rightarrow>
     (case call_method query ''params_get'' ''product_id'' of
        Inl e \<Rightarrow> Inl e
      | Inr product_param \<Rightarrow>
     (case request_getattr request ''query'' of
        Inl e \<Rightarrow> Inl e
      | Inr query2 \<Rightarrow>
     (case value_getattr query2 ''params'' of
        Inl e \<Rightarrow> Inl e
      | Inr params \<Rightarrow>
     (case call_method params ''get'' ''warehouse_id'' of
        Inl e \<Rightarrow> Inl e
      | Inr warehouse_param \<Rightarrow>
     (case filter_param product_param of
        Inl e \<Rightarrow> Inl e
      | Inr pq \<Rightarrow>
     (case filter_param warehouse_param of
        Inl e \<Rightarrow> Inl e
      | Inr wq \<Rightarrow> Inr (stock_levels db pq wq))))))))"

text \<open>
  Example data: one product in one warehouse, a second warehouse, four movements, on a
  backend whose SUM is exact.
\<close>

definition example_product :: Product where
  "example_product =
     \<lparr>product_id = 1, product_sku = ''HDMI-2M'', product_name = ''HDMI cable 2m'',
      product_unit_cost = 350, product_unit_price = 500, product_track_stock = True,
      product_is_active = True\<rparr>"

definition example_warehouse :: "uuid \<Rightarrow> string \<Rightarrow> Warehouse" where
  "example_warehouse wid nm =
     \<lparr>warehouse_id = wid, warehouse_name = nm, warehouse_is_active = True\<rparr>"

definition example_movement ::
  "uuid \<Rightarrow> uuid \<Rightarrow> movement_type \<Rightarrow> decimal \<Rightarrow> datetime \<Rightarrow> StockMovement" where
  "example_movement i wid kind q t =
     \<lparr>sm_id = i, sm_product = 1, sm_warehouse = wid, sm_movement_type = kind,
      sm_quantity = q, sm_reference_type = MR_MANUAL, sm_reference_id = None,
      sm_created_by = 9, sm_created_at = t\<rparr>"

definition example_db :: "StockMovement list \<Rightarrow> database" where
  "example_db ms =
     \<lparr>sql_sum = sum_list, users = [9], products = [example_product],
      warehouses = [example_warehouse 1 ''Main'', example_warehouse 2 ''Annex''],
      accounts = [], stock_movements = ms, ledger_entries = [], sales = [], sale_items = [],
      audit_logs = []\<rparr>"

definition example_movements :: "StockMovement list" where
  "example_movements =
     [example_movement 101 1 MT_IN 10000 1,
      example_movement 102 2 MT_IN 3000 2,
      example_movement 103 1 MT_OUT (- 4000) 3,
      example_movement 104 2 MT_OUT (- 3000) 4]"

section \<open>Decimal fields (sales/models.py, inventory/models.py)\<close>

text \<open>
  A \<^verbatim>\<open>DecimalField(max_digits, decimal_places)\<close>. A value of the field is counted in
  units of \<open>10\<close> to the power \<open>- decimal_places\<close>, so it has at most \<open>max_digits\<close>
  digits exactly when its absolute count is below \<open>10 ^ max_digits\<close>: this is what the
  field's validator and the column type \<^verbatim>\<open>NUMERIC(max_digits, decimal_places)\<close> accept.
\<close>

record DecimalField =
  max_digits :: nat
  decimal_places :: nat

definition decimal_field_accepts :: "DecimalField \<Rightarrow> decimal \<Rightarrow> bool" where
  "decimal_field_accepts field v = (\<bar>v\<bar> < 10 ^ max_digits field)"

definition Sale_subtotal_field :: DecimalField where
  "Sale_subtotal_field = \<lparr>max_digits = 5, decimal_places = 2\<rparr>"

definition Sale_tax_total_field :: DecimalField where
  "Sale_tax_total_field = \<lparr>max_digits = 15, decimal_places = 2\<rparr>"

definition Sale_discount_total_field :: DecimalField where
  "Sale_discount_total_field = \<lparr>max_digits = 15, decimal_places = 2\<rparr>"

definition Sale_grand_total_field :: DecimalField where
  "Sale_grand_total_field = \<lparr>max_digits = 15, decimal_places = 2\<rparr>"



definition SaleItem_quantity_field :: DecimalField where
  "SaleItem_quantity_field = \<lparr>max_digits = 15, decimal_places = 3\<rparr>"

definition SaleItem_line_total_field :: DecimalField where
  "SaleItem_line_total_field = \<lparr>max_digits = 15, decimal_places = 2\<rparr>"

definition StockMovement_quantity_field :: DecimalField where
  "StockMovement_quantity_field = \<lparr>max_digits = 15, decimal_places = 3\<rparr>"

definition Payments_amount_field :: DecimalField where
  "Payments_amount_field = \<lparr>max_digits = 15, decimal_places = 2\<rparr>"

text \<open>A \<^verbatim>\<open>Sale\<close> row the table can hold: each of its four totals fits its field.\<close>

definition sale_storable :: "Sale \<Rightarrow> bool" where
  "sale_storable s =
     (decimal_field_accepts Sale_subtotal_field (sale_subtotal s)
      \<and> decimal_field_accepts Sale_tax_total_field (sale_tax_total s)
      \<and> decimal_field_accepts Sale_discount_total_field (sale_discount_total s)
      \<and> decimal_field_accepts Sale_grand_total_field (sale_grand_total s))"

text \<open>
  The recomputation of the subtotal from the line items
  ("Totals are denormalized for performance but can be recalculated from line items").
\<close>

definition sale_items_of :: "SaleItem list \<Rightarrow> Sale \<Rightarrow> SaleItem list" where
  "sale_items_of tbl s = filter (\<lambda>it. si_sale it = sale_id s) tbl"

definition recomputed_subtotal :: "SaleItem list \<Rightarrow> Sale \<Rightarrow> decimal" where
  "recomputed_subtotal tbl s = sum_list (map si_line_total (sale_items_of tbl s))"

section \<open>Serializer validation (sales/serializers.py, inventory/serializers.py)\<close>

text \<open>
  A serializer class, as far as validation goes: the fields of \<^verbatim>\<open>Meta.fields\<close>, the
  functions defined in the body of the class, and the functions defined in the body of its
  nested class \<^verbatim>\<open>Meta\<close>. The framework runs a field through the field's own validation
  and then through the hook \<^verbatim>\<open>getattr(self, 'validate_' + field_name, None)\<close>, which
  looks among the attributes of the serializer, not among those of \<^verbatim>\<open>Meta\<close>.
\<close>

type_synonym validator = "decimal \<Rightarrow> py_error + decimal"

record serializer_class =
  meta_fields :: "string list"
  class_methods :: "(string \<times> validator) list"
  meta_methods :: "(string \<times> validator) list"

definition validate_method :: "serializer_class \<Rightarrow> string \<Rightarrow> validator option" where
  "validate_method cls field_name = map_of (class_methods cls) (''validate_'' @ field_name)"

definition decimal_field_run_validation :: "DecimalField \<Rightarrow> validator" where
  "decimal_field_run_validation field v =
     (if decimal_field_accepts field v then Inr v else Inl (ValidationError ''max_digits''))"

definition run_decimal_field ::
  "serializer_class \<Rightarrow> string \<Rightarrow> DecimalField \<Rightarrow> decimal \<Rightarrow> py_error + decimal" where
  "run_decimal_field cls field_name field primitive_value =
     (case decimal_field_run_validation field primitive_value of
        Inl e \<Rightarrow> Inl e
      | Inr validated_value \<Rightarrow>
          (case validate_method cls field_name of
             None \<Rightarrow> Inr validated_value
           | Some validate \<Rightarrow> validate validated_value))"

text \<open>
  \<^verbatim>\<open>validate_quantity\<close> as written:
  \<^verbatim>\<open>if value <= 0: raise serializers.ValidationError("Qty must be greater than 0")\<close>,
  and \<^verbatim>\<open>PaymentCreateSerializer.validate_amount\<close>.
\<close>

definition validate_quantity :: validator where
  "validate_quantity v =
     (if v \<le> 0 then Inl (ValidationError ''Qty must be greater than 0'') else Inr v)"

definition validate_amount :: validator where
  "validate_amount v =
     (if v \<le> 0 then Inl (ValidationError ''Amount must be greater than zero'') else Inr v)"

text \<open>
  \<^verbatim>\<open>SaleItemCreateSerializer\<close>: its body holds the class \<^verbatim>\<open>Meta\<close> only, and
  \<^verbatim>\<open>validate_quantity\<close> is defined inside \<^verbatim>\<open>Meta\<close> (one indentation level deeper
  than \<^verbatim>\<open>validate_amount\<close> in \<^verbatim>\<open>PaymentCreateSerializer\<close>).
\<close>

definition SaleItemCreateSerializer :: serializer_class where
  "SaleItemCreateSerializer =
     \<lparr>meta_fields = [''product'', ''quantity''],
      class_methods = [],
      meta_methods = [(''validate_quantity'', validate_quantity)]\<rparr>"

definition PaymentCreateSerializer :: serializer_class where
  "PaymentCreateSerializer =
     \<lparr>meta_fields = [''payment_method'', ''amount'', ''reference_code'', ''received_by''],
      class_methods = [(''validate_amount'', validate_amount)],
      meta_methods = []\<rparr>"

record SaleItemCreate_data =
  data_product :: uuid
  data_quantity :: decimal

text \<open>
  \<^verbatim>\<open>SaleItemCreateSerializer(data=...).is_valid()\<close>: the product must be a row of the
  product table (a primary-key related field), the quantity goes through its field and its
  hook. The result is the validated data, or the error raised.
\<close>

definition SaleItemCreateSerializer_is_valid ::
  "database \<Rightarrow> SaleItemCreate_data \<Rightarrow> py_error + SaleItemCreate_data" where
  "SaleItemCreateSerializer_is_valid db data =
     (case get_product db (data_product data) of
        None \<Rightarrow> Inl (ValidationError ''does_not_exist'')
      | Some p \<Rightarrow>
          (case run_decimal_field SaleItemCreateSerializer ''quantity'' SaleItem_quantity_field
                  (data_quantity data) of
             Inl e \<Rightarrow> Inl e
           | Inr q \<Rightarrow> Inr (data\<lparr>data_quantity := q\<rparr>)))"

text \<open>The amount of a payment, through \<^verbatim>\<open>PaymentCreateSerializer\<close>.\<close>

definition PaymentCreateSerializer_amount :: "decimal \<Rightarrow> py_error + decimal" where
  "PaymentCreateSerializer_amount v =
     run_decimal_field PaymentCreateSerializer ''amount'' Payments_amount_field v"

subsection \<open>Creating stock movements\<close>

text \<open>
  \<^verbatim>\<open>StockMovementCreate\<close> ("Serializer for creating stock movements, used by business
  logic"): a model serializer over seven fields with no validation of its own. The
  fields are those the model gives: \<^verbatim>\<open>reference_id\<close> is declared
  \<^verbatim>\<open>UUIDField(null=True, blank=True)\<close>, so it is not required and may be null.
\<close>

record StockMovement_data =
  data_sm_product :: uuid
  data_sm_warehouse :: uuid
  data_sm_movement_type :: movement_type
  data_sm_quantity :: decimal
  data_sm_reference_type :: movement_reference_type
  data_sm_reference_id :: "uuid option"
  data_sm_created_by :: uuid

definition StockMovementCreate :: serializer_class where
  "StockMovementCreate =
     \<lparr>meta_fields = [''product'', ''warehouse'', ''movement_type'', ''quantity'',
                     ''reference_type'', ''reference_id'', ''created_by''],
      class_methods = [],
      meta_methods = []\<rparr>"

definition StockMovementCreate_is_valid ::
  "database \<Rightarrow> StockMovement_data \<Rightarrow> py_error + StockMovement_data" where
  "StockMovementCreate_is_valid db data =
     (if get_product db (data_sm_product data) = None then Inl (ValidationError ''product'')
      else if get_warehouse db (data_sm_warehouse data) = None
        then Inl (ValidationError ''warehouse'')
      else (case run_decimal_field StockMovementCreate ''quantity'' StockMovement_quantity_field
                   (data_sm_quantity data) of
              Inl e \<Rightarrow> Inl e
            | Inr q \<Rightarrow>
                if data_sm_created_by data \<notin> set (users db)
                then Inl (ValidationError ''created_by'')
                else Inr (data\<lparr>data_sm_quantity := q\<rparr>)))"

text \<open>
  \<^verbatim>\<open>serializer.save()\<close>: \<^verbatim>\<open>StockMovement.objects.create(**validated_data)\<close>. The new
  row takes the identifier \<^verbatim>\<open>uuid4()\<close> draws and the time of the insertion
  (\<^verbatim>\<open>auto_now_add\<close>), both given here; an identifier already in the table violates the
  primary key.
\<close>

definition movement_of_data :: "StockMovement_data \<Rightarrow> uuid \<Rightarrow> datetime \<Rightarrow> StockMovement" where
  "movement_of_data data new_id now =
     \<lparr>sm_id = new_id, sm_product = data_sm_product data, sm_warehouse = data_sm_warehouse data,
      sm_movement_type = data_sm_movement_type data, sm_quantity = data_sm_quantity data,
      sm_reference_type = data_sm_reference_type data,
      sm_reference_id = data_sm_reference_id data,
      sm_created_by = data_sm_created_by data, sm_created_at = now\<rparr>"

definition StockMovement_objects_create ::
  "database \<Rightarrow> StockMovement_data \<Rightarrow> uuid \<Rightarrow> datetime \<Rightarrow> py_error + database" where
  "StockMovement_objects_create db validated_data new_id now =
     (if new_id \<in> sm_id ` set (stock_movements db) then Inl IntegrityError
      else Inr (db\<lparr>stock_movements :=
                   stock_movements db @ [movement_of_data validated_data new_id now]\<rparr>))"

text \<open>Validation, then \<^verbatim>\<open>save\<close>: the append of a movement by business logic.\<close>

definition StockMovementCreate_save ::
  "database \<Rightarrow> StockMovement_data \<Rightarrow> uuid \<Rightarrow> datetime \<Rightarrow> py_error + database" where
  "StockMovementCreate_save db data new_id now =
     (case StockMovementCreate_is_valid db data of
        Inl e \<Rightarrow> Inl e
      | Inr validated_data \<Rightarrow> StockMovement_objects_create db validated_data new_id now)"

text \<open>The tables after a call: one that raises leaves them as they were.\<close>

definition database_after :: "database \<Rightarrow> py_error + database \<Rightarrow> database" where
  "database_after db result = (case result of Inl e \<Rightarrow> db | Inr db' \<Rightarrow> db')"

section \<open>The interface to the tables (inventory/views.py and the admin modules)\<close>

subsection \<open>StockMovementViewSet\<close>

datatype http_method = GET | POST | PUT | PATCH | DELETE | HEAD | OPTIONS

text \<open>
  A request to \<^verbatim>\<open>/api/stock/movements/\<close> (no \<open>request_pk\<close>) or to
  \<^verbatim>\<open>/api/stock/movements/{id}/\<close>, with the parsed body as \<open>request_data\<close>.
\<close>

record movement_request = request +
  request_method :: http_method
  request_pk :: "uuid option"
  request_data :: StockMovement_data

definition http_method_names :: "http_method list" where
  "http_method_names = [GET, POST]"

definition movement_type_value :: "movement_type \<Rightarrow> string" where
  "movement_type_value t =
     (case t of MT_IN \<Rightarrow> ''IN'' | MT_OUT \<Rightarrow> ''OUT'' | MT_ADJUSTMENT \<Rightarrow> ''ADJUSTMENT''
      | MT_TRANSFER_IN \<Rightarrow> ''TRANSFER_IN'' | MT_TRANSFER_OUT \<Rightarrow> ''TRANSFER_OUT''
      | MT_SALE \<Rightarrow> ''SALE'' | MT_REFUND \<Rightarrow> ''REFUND'')"

text \<open>\<^verbatim>\<open>self.request.query_params.get(name)\<close>, as every view but two reads a parameter.\<close>

definition query_params_get :: "'a request_scheme \<Rightarrow> string \<Rightarrow> py_error + py_value" where
  "query_params_get request name =
     (case request_getattr request ''query_params'' of
        Inl e \<Rightarrow> Inl e
      | Inr q \<Rightarrow> call_method q ''get'' name)"

text \<open>
  \<^verbatim>\<open>StockMovementViewSet.get_queryset\<close>: all movements, newest first, filtered by the
  optional parameters \<^verbatim>\<open>product_id\<close>, \<^verbatim>\<open>warehouse_id\<close> and \<^verbatim>\<open>movement_type\<close>.
\<close>

definition get_queryset :: "database \<Rightarrow> 'a request_scheme \<Rightarrow> py_error + StockMovement list" where
  "get_queryset db request =
     (let queryset = rev (sort_key sm_created_at (stock_movements db)) in
      case query_params_get request ''product_id'' of
        Inl e \<Rightarrow> Inl e
      | Inr product_param \<Rightarrow>
     (case filter_param product_param of
        Inl e \<Rightarrow> Inl e
      | Inr pq \<Rightarrow>
     (case query_params_get request ''warehouse_id'' of
        Inl e \<Rightarrow> Inl e
      | Inr warehouse_param \<Rightarrow>
     (case filter_param warehouse_param of
        Inl e \<Rightarrow> Inl e
      | Inr wq \<Rightarrow>
     (case query_params_get request ''movement_type'' of
        Inl e \<Rightarrow> Inl e
      | Inr type_param \<Rightarrow>
          Inr (filter (\<lambda>m. (case type_param of
                               Str t \<Rightarrow> t = [] \<or> movement_type_value (sm_movement_type m) = t
                             | _ \<Rightarrow> True))
                (filter (\<lambda>m. wq = None \<or> wq = Some (sm_warehouse m))
                  (filter (\<lambda>m. pq = None \<or> pq = Some (sm_product m)) queryset))))))))"

text \<open>
  The handlers: \<^verbatim>\<open>create\<close> as the class defines it, the others as
  \<^verbatim>\<open>ModelViewSet\<close> provides them. Each returns the rows of its response and the
  database after it. The serializer \<^verbatim>\<open>create\<close> validates with is the creation
  serializer of \<^verbatim>\<open>serializers.py\<close>, the class \<^verbatim>\<open>StockMovementCreate\<close>.
\<close>

definition movement_list ::
  "database \<Rightarrow> movement_request \<Rightarrow> py_error + StockMovement list \<times> database" where
  "movement_list db request =
     (case get_queryset db request of Inl e \<Rightarrow> Inl e | Inr rows \<Rightarrow> Inr (rows, db))"

definition movement_retrieve ::
  "database \<Rightarrow> movement_request \<Rightarrow> uuid \<Rightarrow> py_error + StockMovement list \<times> database" where
  "movement_retrieve db request pk =
     (case get_queryset db request of
        Inl e \<Rightarrow> Inl e
      | Inr rows \<Rightarrow>
          (case find (\<lambda>m. sm_id m = pk) rows of
             None \<Rightarrow> Inl NotFound
           | Some m \<Rightarrow> Inr ([m], db)))"

definition movement_create ::
  "database \<Rightarrow> movement_request \<Rightarrow> uuid \<Rightarrow> datetime \<Rightarrow>
     py_error + StockMovement list \<times> database" where
  "movement_create db request new_id now =
     (case StockMovementCreate_is_valid db (request_data request) of
        Inl e \<Rightarrow> Inl e
      | Inr validated_data \<Rightarrow>
          if data_sm_movement_type validated_data \<noteq> MT_ADJUSTMENT
          then Inl (BadRequest ''Manual movements must be of type ADJUSTMENT'')
          else
            (case StockMovement_objects_create db
                    (validated_data\<lparr>data_sm_created_by := request_user request\<rparr>) new_id now of
               Inl e \<Rightarrow> Inl e
             | Inr db' \<Rightarrow>
                 Inr ([movement_of_data
                         (validated_data\<lparr>data_sm_created_by := request_user request\<rparr>)
                         new_id now], db')))"

definition movement_update ::
  "database \<Rightarrow> movement_request \<Rightarrow> uuid \<Rightarrow> py_error + StockMovement list \<times> database" where
  "movement_update db request pk =
     (case find (\<lambda>m. sm_id m = pk) (stock_movements db) of
        None \<Rightarrow> Inl NotFound
      | Some old \<Rightarrow>
          (case StockMovementCreate_is_valid db (request_data request) of
             Inl e \<Rightarrow> Inl e
           | Inr validated_data \<Rightarrow>
               Inr ([movement_of_data validated_data pk (sm_created_at old)],
                    db\<lparr>stock_movements :=
                         map (\<lambda>m. if sm_id m = pk
                                   then movement_of_data validated_data pk (sm_created_at old)
                                   else m)
                           (stock_movements db)\<rparr>)))"

definition movement_destroy ::
  "database \<Rightarrow> movement_request \<Rightarrow> uuid \<Rightarrow> py_error + StockMovement list \<times> database" where
  "movement_destroy db request pk =
     (case find (\<lambda>m. sm_id m = pk) (stock_movements db) of
        None \<Rightarrow> Inl NotFound
      | Some old \<Rightarrow>
          Inr ([], db\<lparr>stock_movements := filter (\<lambda>m. sm_id m \<noteq> pk) (stock_movements db)\<rparr>))"

text \<open>
  \<^verbatim>\<open>dispatch\<close>: a method that is not in \<^verbatim>\<open>http_method_names\<close> is answered 405 before
  any handler runs; otherwise the route and the method select the handler.
\<close>

definition StockMovementViewSet_dispatch ::
  "database \<Rightarrow> movement_request \<Rightarrow> uuid \<Rightarrow> datetime \<Rightarrow>
     py_error + StockMovement list \<times> database" where
  "StockMovementViewSet_dispatch db request new_id now =
     (if request_method request \<notin> set http_method_names then Inl MethodNotAllowed
      else
        (case (request_method request, request_pk request) of
           (GET, None) \<Rightarrow> movement_list db request
         | (GET, Some pk) \<Rightarrow> movement_retrieve db request pk
         | (POST, None) \<Rightarrow> movement_create db request new_id now
         | (PUT, Some pk) \<Rightarrow> movement_update db request pk
         | (PATCH, Some pk) \<Rightarrow> movement_update db request pk
         | (DELETE, Some pk) \<Rightarrow> movement_destroy db request pk
         | _ \<Rightarrow> Inl MethodNotAllowed))"

subsection \<open>The admin classes\<close>

text \<open>
  The change form of a \<^verbatim>\<open>ModelAdmin\<close> saves the posted value of a field unless the field
  is in \<^verbatim>\<open>readonly_fields\<close>, in which case the row keeps its value.
\<close>

definition form_value :: "string list \<Rightarrow> string \<Rightarrow> 'a \<Rightarrow> 'a \<Rightarrow> 'a" where
  "form_value readonly_fields name old posted =
     (if name \<in> set readonly_fields then old else posted)"

definition StockMovementAdmin_readonly_fields :: "string list" where
  "StockMovementAdmin_readonly_fields =
     [''id'', ''product'', ''warehouse'', ''movement_type'', ''quantity'', ''reference_type'',
      ''reference_id'', ''created_by'', ''created_at'']"

definition StockMovementAdmin_has_add_permission :: bool where
  "StockMovementAdmin_has_add_permission = False"

definition StockMovementAdmin_has_delete_permission :: bool where
  "StockMovementAdmin_has_delete_permission = False"

definition StockMovementAdmin_save_form :: "StockMovement \<Rightarrow> StockMovement \<Rightarrow> StockMovement" where
  "StockMovementAdmin_save_form old posted =
     (let ro = StockMovementAdmin_readonly_fields in
      \<lparr>sm_id = form_value ro ''id'' (sm_id old) (sm_id posted),
       sm_product = form_value ro ''product'' (sm_product old) (sm_product posted),
       sm_warehouse = form_value ro ''warehouse'' (sm_warehouse old) (sm_warehouse posted),
       sm_movement_type =
         form_value ro ''movement_type'' (sm_movement_type old) (sm_movement_type posted),
       sm_quantity = form_value ro ''quantity'' (sm_quantity old) (sm_quantity posted),
       sm_reference_type =
         form_value ro ''reference_type'' (sm_reference_type old) (sm_reference_type posted),
       sm_reference_id =
         form_value ro ''reference_id'' (sm_reference_id old) (sm_reference_id posted),
       sm_created_by = form_value ro ''created_by'' (sm_created_by old) (sm_created_by posted),
       sm_created_at = form_value ro ''created_at'' (sm_created_at old) (sm_created_at posted)\<rparr>)"

definition LedgerEntryAdmin_readonly_fields :: "string list" where
  "LedgerEntryAdmin_readonly_fields =
     [''id'', ''account'', ''amount'', ''reference_type'', ''reference_id'', ''created_at'']"

definition LedgerEntryAdmin_has_add_permission :: bool where
  "LedgerEntryAdmin_has_add_permission = False"

definition LedgerEntryAdmin_has_delete_permission :: bool where
  "LedgerEntryAdmin_has_delete_permission = False"

definition LedgerEntryAdmin_save_form :: "LedgerEntry \<Rightarrow> LedgerEntry \<Rightarrow> LedgerEntry" where
  "LedgerEntryAdmin_save_form old posted =
     (let ro = LedgerEntryAdmin_readonly_fields in
      \<lparr>le_id = form_value ro ''id'' (le_id old) (le_id posted),
       le_account = form_value ro ''account'' (le_account old) (le_account posted),
       le_amount = form_value ro ''amount'' (le_amount old) (le_amount posted),
       le_reference_type =
         form_value ro ''reference_type'' (le_reference_type old) (le_reference_type posted),
       le_reference_id =
         form_value ro ''reference_id'' (le_reference_id old) (le_reference_id posted),
       le_created_at = form_value ro ''created_at'' (le_created_at old) (le_created_at posted)\<rparr>)"

definition ProductAdmin_readonly_fields :: "string list" where
  "ProductAdmin_readonly_fields = [''id'', ''created_at'']"

definition ProductAdmin_save_form :: "Product \<Rightarrow> Product \<Rightarrow> Product" where
  "ProductAdmin_save_form old posted =
     (let ro = ProductAdmin_readonly_fields in
      \<lparr>product_id = form_value ro ''id'' (product_id old) (product_id posted),
       product_sku = form_value ro ''sku'' (product_sku old) (product_sku posted),
       product_name = form_value ro ''name'' (product_name old) (product_name posted),
       product_unit_cost =
         form_value ro ''unit_cost'' (product_unit_cost old) (product_unit_cost posted),
       product_unit_price =
         form_value ro ''unit_price'' (product_unit_price old) (product_unit_price posted),
       product_track_stock =
         form_value ro ''track_stock'' (product_track_stock old) (product_track_stock posted),
       product_is_active =
         form_value ro ''is_active'' (product_is_active old) (product_is_active posted)\<rparr>)"

definition SaleAdmin_readonly_fields :: "string list" where
  "SaleAdmin_readonly_fields = [''id'', ''sale_number'', ''created_at'']"

definition SaleAdmin_save_form :: "Sale \<Rightarrow> Sale \<Rightarrow> Sale" where
  "SaleAdmin_save_form old posted =
     (let ro = SaleAdmin_readonly_fields in
      \<lparr>sale_id = form_value ro ''id'' (sale_id old) (sale_id posted),
       sale_number = form_value ro ''sale_number'' (sale_number old) (sale_number posted),
       sale_warehouse = form_value ro ''warehouse'' (sale_warehouse old) (sale_warehouse posted),
       sale_sold_by = form_value ro ''sold_by'' (sale_sold_by old) (sale_sold_by posted),
       sale_status = form_value ro ''status'' (sale_status old) (sale_status posted),
       sale_subtotal = form_value ro ''subtotal'' (sale_subtotal old) (sale_subtotal posted),
       sale_tax_total = form_value ro ''tax_total'' (sale_tax_total old) (sale_tax_total posted),
       sale_discount_total =
         form_value ro ''discount_total'' (sale_discount_total old) (sale_discount_total posted),
       sale_grand_total =
         form_value ro ''grand_total'' (sale_grand_total old) (sale_grand_total posted),
       sale_created_at =
         form_value ro ''created_at'' (sale_created_at old) (sale_created_at posted)\<rparr>)"

text \<open>
  \<^verbatim>\<open>SaleAdmin.has_delete_permission\<close>:
  \<^verbatim>\<open>if obj and obj.status in ['COMPLETED', 'REFUNDED']: return False; return True\<close>
\<close>

definition SaleAdmin_has_delete_permission :: "Sale option \<Rightarrow> bool" where
  "SaleAdmin_has_delete_permission obj =
     (case obj of
        None \<Rightarrow> True
      | Some s \<Rightarrow> \<not> (sale_status s = COMPLETED \<or> sale_status s = REFUNDED))"

text \<open>
  \<^verbatim>\<open>SaleItemInline\<close>, the inline of the items on the change page of a sale: every
  field is read-only. Its \<^verbatim>\<open>has_delete_permission(request, obj)\<close> receives the parent
  object, the sale: \<^verbatim>\<open>if obj and obj.sale.status == 'COMPLETED'\<close> reads the attribute
  \<^verbatim>\<open>sale\<close> of a \<^verbatim>\<open>Sale\<close>, which has none.
\<close>

definition SaleItemInline_readonly_fields :: "string list" where
  "SaleItemInline_readonly_fields = [''id'', ''product'', ''quantity'', ''unit_price'', ''line_total'']"

definition SaleItemInline_has_delete_permission :: "Sale option \<Rightarrow> py_error + bool" where
  "SaleItemInline_has_delete_permission obj =
     (case obj of
        None \<Rightarrow> Inr True
      | Some s \<Rightarrow> Inl (AttributeError ''Sale'' ''sale''))"

definition SaleItemAdmin_readonly_fields :: "string list" where
  "SaleItemAdmin_readonly_fields =
     [''id'', ''sale'', ''product'', ''quantity'', ''unit_price'', ''line_total'']"

definition SaleItemAdmin_has_add_permission :: bool where
  "SaleItemAdmin_has_add_permission = False"

text \<open>
  \<^verbatim>\<open>SaleItemAdmin.has_delete_permission\<close>:
  \<^verbatim>\<open>if obj and obj.sale.status == 'COMPLETED': return False; return True\<close>, where
  \<^verbatim>\<open>obj.sale\<close> is the row the foreign key points to.
\<close>

definition SaleItemAdmin_has_delete_permission :: "database \<Rightarrow> SaleItem option \<Rightarrow> bool" where
  "SaleItemAdmin_has_delete_permission db obj =
     (case obj of
        None \<Rightarrow> True
      | Some it \<Rightarrow>
          (case get_sale db (si_sale it) of
             None \<Rightarrow> True
           | Some s \<Rightarrow> sale_status s \<noteq> COMPLETED))"

definition SaleItemAdmin_save_form :: "SaleItem \<Rightarrow> SaleItem \<Rightarrow> SaleItem" where
  "SaleItemAdmin_save_form old posted =
     (let ro = SaleItemAdmin_readonly_fields in
      \<lparr>si_id = form_value ro ''id'' (si_id old) (si_id posted),
       si_sale = form_value ro ''sale'' (si_sale old) (si_sale posted),
       si_product = form_value ro ''product'' (si_product old) (si_product posted),
       si_quantity = form_value ro ''quantity'' (si_quantity old) (si_quantity posted),
       si_unit_price = form_value ro ''unit_price'' (si_unit_price old) (si_unit_price posted),
       si_line_total = form_value ro ''line_total'' (si_line_total old) (si_line_total posted)\<rparr>)"

subsection \<open>The operations of the interface\<close>

text \<open>
  The views of an admin class. The first argument after the database says whether the
  user holds the model permission the inherited \<^verbatim>\<open>has_..._permission\<close> asks for; a class
  that overrides the method does not consult it. The change view of a sale builds the
  formsets of its inlines first, which asks \<^verbatim>\<open>SaleItemInline\<close> whether rows may be
  deleted.
\<close>

definition StockMovementAdmin_add_view :: "database \<Rightarrow> StockMovement \<Rightarrow> py_error + database" where
  "StockMovementAdmin_add_view db posted =
     (if \<not> StockMovementAdmin_has_add_permission then Inl PermissionDenied
      else Inr (db\<lparr>stock_movements := stock_movements db @ [posted]\<rparr>))"

definition StockMovementAdmin_change_view ::
  "database \<Rightarrow> bool \<Rightarrow> uuid \<Rightarrow> StockMovement \<Rightarrow> py_error + database" where
  "StockMovementAdmin_change_view db perm object_id posted =
     (if \<not> perm then Inl PermissionDenied
      else (case find (\<lambda>m. sm_id m = object_id) (stock_movements db) of
              None \<Rightarrow> Inl NotFound
            | Some obj \<Rightarrow>
                Inr (db\<lparr>stock_movements :=
                          map (\<lambda>m. if sm_id m = object_id
                                    then StockMovementAdmin_save_form m posted else m)
                            (stock_movements db)\<rparr>)))"

definition StockMovementAdmin_delete_view :: "database \<Rightarrow> uuid \<Rightarrow> py_error + database" where
  "StockMovementAdmin_delete_view db object_id =
     (if \<not> StockMovementAdmin_has_delete_permission then Inl PermissionDenied
      else Inr (db\<lparr>stock_movements :=
                     filter (\<lambda>m. sm_id m \<noteq> object_id) (stock_movements db)\<rparr>))"

definition LedgerEntryAdmin_add_view :: "database \<Rightarrow> LedgerEntry \<Rightarrow> py_error + database" where
  "LedgerEntryAdmin_add_view db posted =
     (if \<not> LedgerEntryAdmin_has_add_permission then Inl PermissionDenied
      else Inr (db\<lparr>ledger_entries := ledger_entries db @ [posted]\<rparr>))"

definition LedgerEntryAdmin_change_view ::
  "database \<Rightarrow> bool \<Rightarrow> uuid \<Rightarrow> LedgerEntry \<Rightarrow> py_error + database" where
  "LedgerEntryAdmin_change_view db perm object_id posted =
     (if \<not> perm then Inl PermissionDenied
      else (case find (\<lambda>e. le_id e = object_id) (ledger_entries db) of
              None \<Rightarrow> Inl NotFound
            | Some obj \<Rightarrow>
                Inr (db\<lparr>ledger_entries :=
                          map (\<lambda>e. if le_id e = object_id
                                    then LedgerEntryAdmin_save_form e posted else e)
                            (ledger_entries db)\<rparr>)))"

definition LedgerEntryAdmin_delete_view :: "database \<Rightarrow> uuid \<Rightarrow> py_error + database" where
  "LedgerEntryAdmin_delete_view db object_id =
     (if \<not> LedgerEntryAdmin_has_delete_permission then Inl PermissionDenied
      else Inr (db\<lparr>ledger_entries :=
                     filter (\<lambda>e. le_id e \<noteq> object_id) (ledger_entries db)\<rparr>))"

definition ProductAdmin_change_view ::
  "database \<Rightarrow> bool \<Rightarrow> uuid \<Rightarrow> Product \<Rightarrow> py_error + database" where
  "ProductAdmin_change_view db perm object_id posted =
     (if \<not> perm then Inl PermissionDenied
      else (case get_product db object_id of
              None \<Rightarrow> Inl NotFound
            | Some obj \<Rightarrow>
                Inr (db\<lparr>products :=
                          map (\<lambda>p. if product_id p = object_id
                                    then ProductAdmin_save_form p posted else p)
                            (products db)\<rparr>)))"

definition SaleAdmin_change_view ::
  "database \<Rightarrow> bool \<Rightarrow> uuid \<Rightarrow> Sale \<Rightarrow> py_error + database" where
  "SaleAdmin_change_view db perm object_id posted =
     (if \<not> perm then Inl PermissionDenied
      else (case get_sale db object_id of
              None \<Rightarrow> Inl NotFound
            | Some obj \<Rightarrow>
                (case SaleItemInline_has_delete_permission (Some obj) of
                   Inl e \<Rightarrow> Inl e
                 | Inr can_delete \<Rightarrow>
                     Inr (db\<lparr>sales :=
                               map (\<lambda>s. if sale_id s = object_id
                                         then SaleAdmin_save_form s posted else s)
                                 (sales db)\<rparr>))))"

text \<open>
  Deletions. A foreign key declared \<^verbatim>\<open>on_delete=models.PROTECT\<close> refuses the deletion
  of a row that is still referenced: every foreign key into the tables of events and of
  sale items is declared so.
\<close>

definition SaleAdmin_delete_view :: "database \<Rightarrow> uuid \<Rightarrow> py_error + database" where
  "SaleAdmin_delete_view db object_id =
     (case get_sale db object_id of
        None \<Rightarrow> Inl NotFound
      | Some obj \<Rightarrow>
          if \<not> SaleAdmin_has_delete_permission (Some obj) then Inl PermissionDenied
          else if list_ex (\<lambda>it. si_sale it = object_id) (sale_items db) then Inl ProtectedError
          else Inr (db\<lparr>sales := filter (\<lambda>s. sale_id s \<noteq> object_id) (sales db)\<rparr>))"

definition SaleItemAdmin_add_view :: "database \<Rightarrow> SaleItem \<Rightarrow> py_error + database" where
  "SaleItemAdmin_add_view db posted =
     (if \<not> SaleItemAdmin_has_add_permission then Inl PermissionDenied
      else Inr (db\<lparr>sale_items := sale_items db @ [posted]\<rparr>))"

definition SaleItemAdmin_change_view ::
  "database \<Rightarrow> bool \<Rightarrow> uuid \<Rightarrow> SaleItem \<Rightarrow> py_error + database" where
  "SaleItemAdmin_change_view db perm object_id posted =
     (if \<not> perm then Inl PermissionDenied
      else (case find (\<lambda>it. si_id it = object_id) (sale_items db) of
              None \<Rightarrow> Inl NotFound
            | Some obj \<Rightarrow>
                Inr (db\<lparr>sale_items :=
                          map (\<lambda>it. if si_id it = object_id
                                     then SaleItemAdmin_save_form it posted else it)
                            (sale_items db)\<rparr>)))"

definition SaleItemAdmin_delete_view :: "database \<Rightarrow> uuid \<Rightarrow> py_error + database" where
  "SaleItemAdmin_delete_view db object_id =
     (case find (\<lambda>it. si_id it = object_id) (sale_items db) of
        None \<Rightarrow> Inl NotFound
      | Some obj \<Rightarrow>
          if \<not> SaleItemAdmin_has_delete_permission db (Some obj) then Inl PermissionDenied
          else Inr (db\<lparr>sale_items :=
                         filter (\<lambda>it. si_id it \<noteq> object_id) (sale_items db)\<rparr>))"

definition delete_product :: "database \<Rightarrow> uuid \<Rightarrow> py_error + database" where
  "delete_product db pid =
     (if list_ex (\<lambda>m. sm_product m = pid) (stock_movements db)
         \<or> list_ex (\<lambda>it. si_product it = pid) (sale_items db)
      then Inl ProtectedError
      else Inr (db\<lparr>products := filter (\<lambda>p. product_id p \<noteq> pid) (products db)\<rparr>))"

definition delete_warehouse :: "database \<Rightarrow> uuid \<Rightarrow> py_error + database" where
  "delete_warehouse db wid =
     (if list_ex (\<lambda>m. sm_warehouse m = wid) (stock_movements db)
         \<or> list_ex (\<lambda>s. sale_warehouse s = wid) (sales db)
      then Inl ProtectedError
      else Inr (db\<lparr>warehouses := filter (\<lambda>w. warehouse_id w \<noteq> wid) (warehouses db)\<rparr>))"

definition delete_account :: "database \<Rightarrow> uuid \<Rightarrow> py_error + database" where
  "delete_account db aid =
     (if list_ex (\<lambda>e. le_account e = aid) (ledger_entries db) then Inl ProtectedError
      else Inr (db\<lparr>accounts := filter (\<lambda>a. account_id a \<noteq> aid) (accounts db)\<rparr>))"

definition delete_user :: "database \<Rightarrow> uuid \<Rightarrow> py_error + database" where
  "delete_user db uid =
     (if list_ex (\<lambda>m. sm_created_by m = uid) (stock_movements db)
         \<or> list_ex (\<lambda>s. sale_sold_by s = uid) (sales db)
      then Inl ProtectedError
      else Inr (db\<lparr>users := filter (\<lambda>u. u \<noteq> uid) (users db)\<rparr>))"

text \<open>
  One operation of the interface: a request to the movement API (with the identifier
  and the time a creation would use), a view of an admin class, or a deletion of
  reference data.
\<close>

datatype interface_op =
  MovementApi movement_request uuid datetime
  | MovementAdminAdd StockMovement
  | MovementAdminChange bool uuid StockMovement
  | MovementAdminDelete uuid
  | LedgerAdminAdd LedgerEntry
  | LedgerAdminChange bool uuid LedgerEntry
  | LedgerAdminDelete uuid
  | ProductAdminChange bool uuid Product
  | SaleAdminChange bool uuid Sale
  | SaleAdminDelete uuid
  | SaleItemAdminAdd SaleItem
  | SaleItemAdminChange bool uuid SaleItem
  | SaleItemAdminDelete uuid
  | DeleteProduct uuid
  | DeleteWarehouse uuid
  | DeleteAccount uuid
  | DeleteUser uuid

fun perform :: "database \<Rightarrow> interface_op \<Rightarrow> py_error + database" where
  "perform db (MovementApi request new_id now) =
     (case StockMovementViewSet_dispatch db request new_id now of
        Inl e \<Rightarrow> Inl e
      | Inr (rows, db') \<Rightarrow> Inr db')"
| "perform db (MovementAdminAdd posted) = StockMovementAdmin_add_view db posted"
| "perform db (MovementAdminChange perm object_id posted) =
     StockMovementAdmin_change_view db perm object_id posted"
| "perform db (MovementAdminDelete object_id) = StockMovementAdmin_delete_view db object_id"
| "perform db (LedgerAdminAdd posted) = LedgerEntryAdmin_add_view db posted"
| "perform db (LedgerAdminChange perm object_id posted) =
     LedgerEntryAdmin_change_view db perm object_id posted"
| "perform db (LedgerAdminDelete object_id) = LedgerEntryAdmin_delete_view db object_id"
| "perform db (ProductAdminChange perm object_id posted) =
     ProductAdmin_change_view db perm object_id posted"
| "perform db (SaleAdminChange perm object_id posted) =
     SaleAdmin_change_view db perm object_id posted"
| "perform db (SaleAdminDelete object_id) = SaleAdmin_delete_view db object_id"
| "perform db (SaleItemAdminAdd posted) = SaleItemAdmin_add_view db posted"
| "perform db (SaleItemAdminChange perm object_id posted) =
     SaleItemAdmin_change_view db perm object_id posted"
| "perform db (SaleItemAdminDelete object_id) = SaleItemAdmin_delete_view db object_id"
| "perform db (DeleteProduct pid) = delete_product db pid"
| "perform db (DeleteWarehouse wid) = delete_warehouse db wid"
| "perform db (DeleteAccount aid) = delete_account db aid"
| "perform db (DeleteUser uid) = delete_user db uid"

text \<open>An operation that raises or is refused writes nothing.\<close>

definition step :: "database \<Rightarrow> interface_op \<Rightarrow> database" where
  "step db op = (case perform db op of Inl e \<Rightarrow> db | Inr db' \<Rightarrow> db')"

definition run :: "database \<Rightarrow> interface_op list \<Rightarrow> database" where
  "run db ops = foldl step db ops"

text \<open>
  \<^verbatim>\<open>SaleItemSerializer\<close>: \<^verbatim>\<open>product_sku\<close> and \<^verbatim>\<open>product_name\<close> are read through the
  foreign key (\<^verbatim>\<open>source='product.sku'\<close>), \<^verbatim>\<open>unit_price\<close> and the other fields are the
  columns of the item itself.
\<close>

record SaleItem_representation =
  repr_id :: uuid
  repr_sale :: uuid
  repr_product :: uuid
  repr_product_sku :: "string option"
  repr_product_name :: "string option"
  repr_quantity :: decimal
  repr_unit_price :: decimal
  repr_line_total :: decimal

definition SaleItemSerializer_data :: "database \<Rightarrow> SaleItem \<Rightarrow> SaleItem_representation" where
  "SaleItemSerializer_data db it =
     \<lparr>repr_id = si_id it, repr_sale = si_sale it, repr_product = si_product it,
      repr_product_sku = map_option product_sku (get_product db (si_product it)),
      repr_product_name = map_option product_name (get_product db (si_product it)),
      repr_quantity = si_quantity it, repr_unit_price = si_unit_price it,
      repr_line_total = si_line_total it\<rparr>"

text \<open>Example data: a sale with two items, and the data of a movement of kind SALE.\<close>

definition example_sale :: "decimal \<Rightarrow> sale_status \<Rightarrow> Sale" where
  "example_sale subtotal st =
     \<lparr>sale_id = 50, sale_number = ''SALE-2026-001'', sale_warehouse = 1, sale_sold_by = 9,
      sale_status = st, sale_subtotal = subtotal, sale_tax_total = 0,
      sale_discount_total = 0, sale_grand_total = subtotal, sale_created_at = 5\<rparr>"

definition example_item :: "uuid \<Rightarrow> decimal \<Rightarrow> decimal \<Rightarrow> decimal \<Rightarrow> SaleItem" where
  "example_item i q price line =
     \<lparr>si_id = i, si_sale = 50, si_product = 1, si_quantity = q, si_unit_price = price,
      si_line_total = line\<rparr>"


definition example_sale_movement_data :: StockMovement_data where
  "example_sale_movement_data =
     \<lparr>data_sm_product = 1, data_sm_warehouse = 1, data_sm_movement_type = MT_SALE,
      data_sm_quantity = - 4000, data_sm_reference_type = MR_SALE,
      data_sm_reference_id = None, data_sm_created_by = 9\<rparr>"

section \<open>Completing a sale\<close>

text \<open>
  The repository declares the sale, its items, the movements, the ledger and the audit
  log, and documents the workflow ("COMPLETED: Finalized, stock reduced, ledger entries
  created"), but holds no code that completes a sale. The definitions of this section
  follow the specification of the operation \<^verbatim>\<open>complete\<close>.
\<close>

datatype workflow_error =
  InvalidStateError | InsufficientStockError | WorkflowValidationError | SaleNotFound
  | ConflictError

text \<open>
  Modelled from the spec: the aggregation \<^verbatim>\<open>currentStock(productId, warehouseId)\<close>, of
  which the sources hold the listing query only: "sum of signed quantities of matching
  movements; zero if none exist (not an error)".
\<close>

definition current_stock :: "database \<Rightarrow> uuid \<Rightarrow> uuid \<Rightarrow> decimal" where
  "current_stock db p w =
     sum_list (map sm_quantity
       (filter (\<lambda>m. sm_product m = p \<and> sm_warehouse m = w) (stock_movements db)))"

text \<open>
  Modelled from the spec: whether the product of an item "has tracksStock = true"; the
  workflow that asks is missing from the sources.
\<close>

definition tracks_stock :: "database \<Rightarrow> SaleItem \<Rightarrow> bool" where
  "tracks_stock db it =
     (case get_product db (si_product it) of
        None \<Rightarrow> False
      | Some p \<Rightarrow> product_track_stock p)"

text \<open>
  Modelled from the spec: the movement the missing workflow appends for a stock-tracked
  item, "a StockMovement of kind SALE with quantity negated", in the warehouse of the sale
  and referencing the sale.
\<close>

definition sale_movement :: "uuid \<Rightarrow> Sale \<Rightarrow> uuid \<Rightarrow> datetime \<Rightarrow> SaleItem \<Rightarrow> StockMovement" where
  "sale_movement new_id s user now it =
     \<lparr>sm_id = new_id, sm_product = si_product it, sm_warehouse = sale_warehouse s,
      sm_movement_type = MT_SALE, sm_quantity = - si_quantity it,
      sm_reference_type = MR_SALE, sm_reference_id = Some (sale_id s),
      sm_created_by = user, sm_created_at = now\<rparr>"

text \<open>
  Modelled from the spec: the item loop of the missing operation \<^verbatim>\<open>complete\<close>. "For
  every item whose product has tracksStock = true, the workflow checks
  currentStock(product, warehouse) >= quantity; if any check fails the whole operation
  fails with InsufficientStockError". The movements of the items already checked are held
  back in \<open>pending\<close>: nothing is written before every item has passed. \<open>gen\<close> gives
  the identifiers drawn for the new rows.
\<close>

fun validate_items ::
  "database \<Rightarrow> Sale \<Rightarrow> uuid \<Rightarrow> (nat \<Rightarrow> uuid) \<Rightarrow> datetime \<Rightarrow> StockMovement list \<Rightarrow>
     SaleItem list \<Rightarrow> workflow_error + StockMovement list" where
  "validate_items db s user gen now pending [] = Inr pending"
| "validate_items db s user gen now pending (it # its) =
     (if tracks_stock db it
      then
        (if si_quantity it \<le> current_stock db (si_product it) (sale_warehouse s)
         then validate_items db s user gen now
                (pending @ [sale_movement (gen (length pending)) s user now it]) its
         else Inl InsufficientStockError)
      else validate_items db s user gen now pending its)"

text \<open>
  Modelled from the spec: the missing operation \<^verbatim>\<open>complete(sale)\<close>. Preconditions:
  the status is PENDING (else InvalidStateError) and at least one item exists (the spec
  names no error for this; the model uses \<open>WorkflowValidationError\<close>, and
  \<open>SaleNotFound\<close> for an identifier that is no sale). After the stock checks, "on
  success: for each stock-tracked item, append a StockMovement of kind SALE with quantity
  negated; append one LedgerEntry crediting a designated revenue Account with the sale's
  grand total; transition Sale.status to COMPLETED; emit one AuditLog capturing
  before-state and after-state". The result is the error, if any, and the database after
  the call.
\<close>

definition complete ::
  "database \<Rightarrow> uuid \<Rightarrow> uuid \<Rightarrow> (nat \<Rightarrow> uuid) \<Rightarrow> datetime \<Rightarrow> uuid \<Rightarrow>
     workflow_error option \<times> database" where
  "complete db user revenue_account gen now sid =
     (case get_sale db sid of
        None \<Rightarrow> (Some SaleNotFound, db)
      | Some s \<Rightarrow>
          if sale_status s \<noteq> PENDING then (Some InvalidStateError, db)
          else if sale_items_of (sale_items db) s = [] then (Some WorkflowValidationError, db)
          else
            (case validate_items db s user gen now [] (sale_items_of (sale_items db) s) of
               Inl e \<Rightarrow> (Some e, db)
             | Inr movements \<Rightarrow>
                 (let entry =
                        \<lparr>le_id = gen (length movements), le_account = revenue_account,
                         le_amount = sale_grand_total s, le_reference_type = LR_SALE,
                         le_reference_id = sid, le_created_at = now\<rparr>;
                      completed = s\<lparr>sale_status := COMPLETED\<rparr>;
                      log =
                        \<lparr>audit_id = gen (Suc (length movements)), audit_user = user,
                         audit_action = AUDIT_UPDATE, audit_entity_type = ''Sale'',
                         audit_entity_id = sid,
                         audit_before_state =
                           Some \<lparr>snap_sale = s,
                                 snap_items = sale_items_of (sale_items db) s,
                                 snap_event_ids = []\<rparr>,
                         audit_after_state =
                           Some \<lparr>snap_sale = completed,
                                 snap_items = sale_items_of (sale_items db) s,
                                 snap_event_ids = map sm_id movements @ [le_id entry]\<rparr>,
                         audit_created_at = now\<rparr>
                  in (None,
                      db\<lparr>stock_movements := stock_movements db @ movements,
                         ledger_entries := ledger_entries db @ [entry],
                         sales := map (\<lambda>x. if sale_id x = sid then completed else x) (sales db),
                         audit_logs := audit_logs db @ [log]\<rparr>))))"

text \<open>
  Example data for the scenarios of the specification: warehouse 1 holds 10 units of
  product 1 (one movement IN of +10.000); the pending sale 50 has the items given.
\<close>

definition scenario_db :: "SaleItem list \<Rightarrow> database" where
  "scenario_db items =
     (example_db [example_movement 101 1 MT_IN 10000 1])
       \<lparr>accounts := [\<lparr>account_id = 7, account_name = ''Revenue'',
                       account_account_type = INCOME, account_is_active = True\<rparr>],
        sales := [example_sale 2000 PENDING], sale_items := items\<rparr>"

subsection \<open>Adding an item\<close>












section \<open>Account balance (finance/serializers.py)\<close>

text \<open>
  \<^verbatim>\<open>obj.ledger_entries\<close> is the reverse manager of the foreign key
  \<^verbatim>\<open>LedgerEntry.account\<close> (\<^verbatim>\<open>related_name='ledger_entries'\<close>): the rows of the
  ledger table whose account is \<^verbatim>\<open>obj\<close>.
\<close>

definition ledger_entries_all :: "LedgerEntry list \<Rightarrow> Account \<Rightarrow> LedgerEntry list" where
  "ledger_entries_all tbl obj = filter (\<lambda>entry. le_account entry = account_id obj) tbl"

text \<open>Python's built-in \<^verbatim>\<open>sum\<close>: a left fold that starts from the integer 0.\<close>

definition py_sum :: "int list \<Rightarrow> int" where
  "py_sum xs = foldl (+) 0 xs"

text \<open>
  \<^verbatim>\<open>AccountSerializer.get_balance\<close>:
  \<^verbatim>\<open>total = sum(entry.amount for entry in obj.ledger_entries.all()); return total\<close>
\<close>

definition get_balance :: "LedgerEntry list \<Rightarrow> Account \<Rightarrow> decimal" where
  "get_balance tbl obj = py_sum (map le_amount (ledger_entries_all tbl obj))"

section \<open>Properties of the account balance\<close>

lemma foldl_plus_acc: "foldl (+) (a::int) xs = a + sum_list xs"
  by (induction xs arbitrary: a) simp_all

lemma py_sum_sum_list: "py_sum xs = sum_list xs"
  by (simp add: py_sum_def foldl_plus_acc)

lemma py_sum_mset: "py_sum xs = sum_mset (mset xs)"
  by (simp add: py_sum_sum_list sum_mset_sum_list)

text \<open>
  Claim C3. For every account and every table of ledger entries, the balance computed by
  \<open>get_balance\<close> is the exact sum of the signed amounts of the entries that reference the
  account: it depends on the entries only as a multiset (not on their order), entries of
  other accounts do not count, and with no entry for the account the balance is zero.
\<close>

theorem account_balance_is_sum:
  "get_balance tbl obj =
     sum_mset (image_mset le_amount (filter_mset (\<lambda>e. le_account e = account_id obj) (mset tbl)))
   \<and> (filter (\<lambda>e. le_account e = account_id obj) tbl = [] \<longrightarrow> get_balance tbl obj = 0)
   \<and> get_balance (tbl @ [e]) obj =
       (if le_account e = account_id obj then get_balance tbl obj + le_amount e
        else get_balance tbl obj)"
  by (simp add: get_balance_def ledger_entries_all_def py_sum_sum_list sum_mset_sum_list
      flip: mset_filter mset_map)

theorem account_balance_is_sum_witness:
  "get_balance
     [\<lparr>le_id = 1, le_account = 7, le_amount = 1250, le_reference_type = LR_SALE,
        le_reference_id = 3, le_created_at = 10\<rparr>,
      \<lparr>le_id = 2, le_account = 8, le_amount = 999, le_reference_type = LR_SALE,
        le_reference_id = 4, le_created_at = 11\<rparr>,
      \<lparr>le_id = 3, le_account = 7, le_amount = -250, le_reference_type = LR_REFUND,
        le_reference_id = 3, le_created_at = 12\<rparr>]
     \<lparr>account_id = 7, account_name = ''Revenue'', account_account_type = INCOME,
        account_is_active = True\<rparr> = 1000
   \<and> get_balance []
     \<lparr>account_id = 7, account_name = ''Revenue'', account_account_type = INCOME,
        account_is_active = True\<rparr> = 0"
  using account_balance_is_sum
    [of "[\<lparr>le_id = 1, le_account = 7, le_amount = 1250, le_reference_type = LR_SALE,
        le_reference_id = 3, le_created_at = 10\<rparr>,
      \<lparr>le_id = 2, le_account = 8, le_amount = 999, le_reference_type = LR_SALE,
        le_reference_id = 4, le_created_at = 11\<rparr>,
      \<lparr>le_id = 3, le_account = 7, le_amount = -250, le_reference_type = LR_REFUND,
        le_reference_id = 3, le_created_at = 12\<rparr>]"
      "\<lparr>account_id = 7, account_name = ''Revenue'', account_account_type = INCOME,
        account_is_active = True\<rparr>"]
    account_balance_is_sum [of "[]"
      "\<lparr>account_id = 7, account_name = ''Revenue'', account_account_type = INCOME,
        account_is_active = True\<rparr>"]
  by simp

section \<open>Properties of the stock levels\<close>

lemma filtered_values_Nil: "filtered_values db pq wq [] = []"
  by (cases pq; cases wq)
     (simp_all add: filtered_values_def filter_product_id_def filter_warehouse_id_def)

lemma filtered_values_Cons:
  "filtered_values db pq wq (m # ms) =
     (case values_row db m of
        None \<Rightarrow> filtered_values db pq wq ms
      | Some r \<Rightarrow>
          if (pq = None \<or> pq = Some (sm_product m)) \<and> (wq = None \<or> wq = Some (sm_warehouse m))
          then r # filtered_values db pq wq ms else filtered_values db pq wq ms)"
  by (cases pq; cases wq)
     (auto simp: filtered_values_def filter_product_id_def filter_warehouse_id_def
        values_row_def split: option.splits)

lemma filtered_values_keys:
  "r \<in> set (filtered_values db pq wq ms) \<Longrightarrow>
     fst (fst r) = sm_product (snd r) \<and> fst (snd (snd (snd (fst r)))) = sm_warehouse (snd r)
     \<and> values_row db (snd r) = Some r"
  by (induction ms)
     (auto simp: filtered_values_Nil filtered_values_Cons values_row_def
        split: option.splits if_splits)

lemma group_rows_pair:
  assumes "get_product db p = Some P" "get_warehouse db w = Some W"
    and "pq = None \<or> pq = Some p" "wq = None \<or> wq = Some w"
  shows "group_rows (p, product_sku P, product_name P, w, warehouse_name W)
           (filtered_values db pq wq ms) =
         filter (\<lambda>m. sm_product m = p \<and> sm_warehouse m = w) ms"
  using assms
  by (induction ms)
     (auto simp: filtered_values_Nil filtered_values_Cons group_rows_def values_row_def
        split: option.splits)

lemma key_in_group: "k \<in> fst ` set rows \<longleftrightarrow> group_rows k rows \<noteq> []"
  by (auto simp: group_rows_def filter_empty_conv image_iff)

lemma pair_key_unique:
  assumes "get_product db p = Some P" "get_warehouse db w = Some W"
    and "k \<in> fst ` set (filtered_values db pq wq ms)"
  shows "(fst k = p \<and> fst (snd (snd (snd k))) = w) \<longleftrightarrow>
         k = (p, product_sku P, product_name P, w, warehouse_name W)"
proof -
  from assms(3) obtain r where r: "r \<in> set (filtered_values db pq wq ms)" "k = fst r"
    by auto
  from filtered_values_keys [OF r(1)] assms(1,2) r(2) show ?thesis
    by (cases r) (auto simp: values_row_def split: option.splits)
qed

lemma annotate_pair_rows:
  assumes "get_product db p = Some P" "get_warehouse db w = Some W"
    and "pq = None \<or> pq = Some p" "wq = None \<or> wq = Some w"
  shows "{l \<in> set (annotate f (filtered_values db pq wq ms)).
            lvl_product_id l = p \<and> lvl_warehouse_id l = w} =
         (if filter (\<lambda>m. sm_product m = p \<and> sm_warehouse m = w) ms = [] then {}
          else {annotate_group f (filtered_values db pq wq ms)
                  (p, product_sku P, product_name P, w, warehouse_name W)})"
proof -
  let ?k = "(p, product_sku P, product_name P, w, warehouse_name W)"
  let ?F = "filtered_values db pq wq ms"
  have Q: "(lvl_product_id (annotate_group f ?F k) = p \<and> lvl_warehouse_id (annotate_group f ?F k) = w)
           \<longleftrightarrow> k = ?k" if "k \<in> fst ` set ?F" for k
  proof -
    have "(lvl_product_id (annotate_group f ?F k) = p \<and> lvl_warehouse_id (annotate_group f ?F k) = w)
          \<longleftrightarrow> (fst k = p \<and> fst (snd (snd (snd k))) = w)"
      by (cases k) (simp add: annotate_group_def)
    with pair_key_unique [OF assms(1,2) that] show ?thesis by simp
  qed
  have mem: "?k \<in> fst ` set ?F \<longleftrightarrow>
             filter (\<lambda>m. sm_product m = p \<and> sm_warehouse m = w) ms \<noteq> []"
    using key_in_group [of ?k ?F] group_rows_pair [OF assms, of ms] by simp
  have "{l \<in> set (annotate f ?F). lvl_product_id l = p \<and> lvl_warehouse_id l = w} =
        annotate_group f ?F ` {k \<in> fst ` set ?F.
          lvl_product_id (annotate_group f ?F k) = p \<and> lvl_warehouse_id (annotate_group f ?F k) = w}"
    unfolding annotate_def by (simp only: set_map set_remdups) blast
  also have "\<dots> = annotate_group f ?F ` {k \<in> fst ` set ?F. k = ?k}"
    using Q by (intro arg_cong [where f = "image (annotate_group f ?F)"]) blast
  also have "\<dots> = (if ?k \<in> fst ` set ?F then {annotate_group f ?F ?k} else {})"
    by auto
  finally show ?thesis using mem by simp
qed

lemma no_rows_outside_filter:
  assumes "l \<in> set (annotate f (filtered_values db pq wq ms))"
  shows "(pq = None \<or> pq = Some (lvl_product_id l)) \<and> (wq = None \<or> wq = Some (lvl_warehouse_id l))"
proof -
  let ?F = "filtered_values db pq wq ms"
  from assms obtain r where r: "r \<in> set ?F" "l = annotate_group f ?F (fst r)"
    by (auto simp: annotate_def)
  have "(pq = None \<or> pq = Some (sm_product (snd r))) \<and> (wq = None \<or> wq = Some (sm_warehouse (snd r)))"
    using r(1)
    by (cases pq; cases wq)
       (auto simp: filtered_values_def filter_product_id_def filter_warehouse_id_def)
  moreover have "lvl_product_id l = sm_product (snd r)" "lvl_warehouse_id l = sm_warehouse (snd r)"
    using filtered_values_keys [OF r(1)] r(2)
    by (cases r; simp add: annotate_group_def split: prod.splits)+
  ultimately show ?thesis by simp
qed

lemma stock_levels_rows:
  assumes "get_product db p = Some P" "get_warehouse db w = Some W"
  shows "(\<exists>l \<in> set (stock_levels db pq wq).
            lvl_product_id l = p \<and> lvl_warehouse_id l = w \<and> current_quantity l = Some q) \<longleftrightarrow>
         (pq = None \<or> pq = Some p) \<and> (wq = None \<or> wq = Some w)
         \<and> filter (\<lambda>m. sm_product m = p \<and> sm_warehouse m = w) (stock_movements db) \<noteq> []
         \<and> q = sql_sum db (map sm_quantity
                 (filter (\<lambda>m. sm_product m = p \<and> sm_warehouse m = w) (stock_movements db)))
         \<and> 0 < q"
proof (cases "(pq = None \<or> pq = Some p) \<and> (wq = None \<or> wq = Some w)")
  case False
  have eq: "annotated_levels db pq wq =
            annotate (sql_sum db) (filtered_values db pq wq (stock_movements db))"
    by (simp add: annotated_levels_def filtered_values_def movement_values_def)
  from False no_rows_outside_filter [of _ "sql_sum db" db pq wq "stock_movements db"]
  show ?thesis
    unfolding stock_levels_def eq by auto
next
  case True
  let ?xs = "filter (\<lambda>m. sm_product m = p \<and> sm_warehouse m = w) (stock_movements db)"
  let ?F = "filtered_values db pq wq (stock_movements db)"
  let ?k = "(p, product_sku P, product_name P, w, warehouse_name W)"
  let ?f = "sql_sum db"
  have eq: "annotated_levels db pq wq = annotate ?f ?F"
    by (simp add: annotated_levels_def filtered_values_def movement_values_def)
  from True have pq: "pq = None \<or> pq = Some p" and wq: "wq = None \<or> wq = Some w" by simp_all
  have rows: "{l \<in> set (annotate ?f ?F). lvl_product_id l = p \<and> lvl_warehouse_id l = w} =
         (if ?xs = [] then {} else {annotate_group ?f ?F ?k})"
    by (rule annotate_pair_rows [OF assms pq wq])
  have g: "group_rows ?k ?F = ?xs"
    by (rule group_rows_pair [OF assms pq wq])
  have "(\<exists>l \<in> set (stock_levels db pq wq).
           lvl_product_id l = p \<and> lvl_warehouse_id l = w \<and> current_quantity l = Some q) \<longleftrightarrow>
        (\<exists>l \<in> {l \<in> set (annotate ?f ?F). lvl_product_id l = p \<and> lvl_warehouse_id l = w}.
           current_quantity_gt_0 l \<and> current_quantity l = Some q)"
    unfolding stock_levels_def eq by auto
  also have "\<dots> \<longleftrightarrow> ?xs \<noteq> [] \<and> current_quantity_gt_0 (annotate_group ?f ?F ?k)
                    \<and> current_quantity (annotate_group ?f ?F ?k) = Some q"
    unfolding rows by simp
  also have "\<dots> \<longleftrightarrow> ?xs \<noteq> [] \<and> q = ?f (map sm_quantity ?xs) \<and> 0 < q"
    by (auto simp: current_quantity_gt_0_def annotate_group_def g Sum_agg_def)
  finally show ?thesis using True by simp
qed

lemma stock_levels_positive_pairs:
  assumes "get_product db p = Some P" "get_warehouse db w = Some W"
    and "sql_sum db = sum_list"
  shows "(\<exists>l \<in> set (stock_levels db pq wq).
            lvl_product_id l = p \<and> lvl_warehouse_id l = w \<and> current_quantity l = Some q) \<longleftrightarrow>
         (pq = None \<or> pq = Some p) \<and> (wq = None \<or> wq = Some w)
         \<and> q = sum_mset (image_mset sm_quantity (pair_movements db p w)) \<and> 0 < q"
proof -
  let ?xs = "filter (\<lambda>m. sm_product m = p \<and> sm_warehouse m = w) (stock_movements db)"
  have pm: "sum_mset (image_mset sm_quantity (pair_movements db p w)) =
            sum_list (map sm_quantity ?xs)"
    by (simp add: pair_movements_def sum_mset_sum_list flip: mset_map mset_filter)
  have "0 < sum_list (map sm_quantity ?xs) \<Longrightarrow> ?xs \<noteq> []"
    by auto
  with stock_levels_rows [OF assms(1,2), of pq wq q] show ?thesis
    unfolding pm assms(3) by auto
qed

text \<open>
  Claim C1. The quantity of a (product, warehouse) pair is computed in one place,
  \<open>StockViewSet_list\<close>, which raises \<^verbatim>\<open>AttributeError\<close> on its first statement for
  every request (the slip of claim C6): the database below holds one movement of +10.000
  for the pair (1, 1) and none for the pair (1, 2), so that the claim requires the
  quantities 10.000 and 0, and the view computes no quantity at all.
\<close>

theorem StockViewSet_list_computes_no_quantity:
  "sum_mset (image_mset sm_quantity
     (pair_movements (example_db [example_movement 101 1 MT_IN 10000 1]) 1 1)) = 10000
   \<and> pair_movements (example_db [example_movement 101 1 MT_IN 10000 1]) 1 2 = {#}
   \<and> StockViewSet_list \<lparr>query_params = [], request_user = 9\<rparr>
       (example_db [example_movement 101 1 MT_IN 10000 1]) =
     Inl (AttributeError ''Request'' ''query'')"
  by (simp add: pair_movements_def example_db_def example_movement_def StockViewSet_list_def
      request_getattr_def request_attributes_def)

text \<open>
  Claim C6. The listing operation is \<open>StockViewSet_list\<close>. It reads its two filters
  through \<^verbatim>\<open>request.query\<close>, an attribute a request does not have (the other views read
  \<^verbatim>\<open>request.query_params\<close>): for every request and every database it raises
  \<^verbatim>\<open>AttributeError\<close> before the query is built, and lists nothing. The query it would
  run, \<open>stock_levels\<close>, does keep exactly the pairs whose sum, as the backend computes
  it, is strictly positive (\<open>stock_levels_rows\<close>; with an exact sum these are the pairs of
  strictly positive quantity, \<open>stock_levels_positive_pairs\<close>).
\<close>

theorem StockViewSet_list_raises:
  "StockViewSet_list request db = Inl (AttributeError ''Request'' ''query'')"
  by (simp add: StockViewSet_list_def request_getattr_def request_attributes_def)

section \<open>Properties of the serializers\<close>

lemma SaleItemCreateSerializer_hook: "validate_method SaleItemCreateSerializer ''quantity'' = None"
  by (simp add: validate_method_def SaleItemCreateSerializer_def)

lemma SaleItemCreateSerializer_no_sign_check:
  "SaleItemCreateSerializer_is_valid db data =
     (if get_product db (data_product data) = None then Inl (ValidationError ''does_not_exist'')
      else if \<bar>data_quantity data\<bar> < 10 ^ 15 then Inr data
      else Inl (ValidationError ''max_digits''))"
  by (auto simp: SaleItemCreateSerializer_is_valid_def run_decimal_field_def
      decimal_field_run_validation_def decimal_field_accepts_def SaleItem_quantity_field_def
      validate_method_def SaleItemCreateSerializer_def split: option.splits)

text \<open>
  Claim C8. The check "quantity must be greater than zero" is written
  (\<open>validate_quantity\<close> rejects 0), but in the body of \<^verbatim>\<open>Meta\<close>, where the framework
  never looks for it: \<open>SaleItemCreateSerializer_is_valid\<close> accepts the quantities 0 and
  -2.500 for an existing product, where the claim requires a validation error. The same
  check of \<^verbatim>\<open>PaymentCreateSerializer\<close>, defined in the class body, does reject 0.
\<close>

theorem SaleItemCreateSerializer_accepts_zero:
  "SaleItemCreateSerializer_is_valid (example_db []) \<lparr>data_product = 1, data_quantity = 0\<rparr>
     = Inr \<lparr>data_product = 1, data_quantity = 0\<rparr>
   \<and> SaleItemCreateSerializer_is_valid (example_db []) \<lparr>data_product = 1, data_quantity = - 2500\<rparr>
     = Inr \<lparr>data_product = 1, data_quantity = - 2500\<rparr>
   \<and> validate_quantity 0 = Inl (ValidationError ''Qty must be greater than 0'')
   \<and> PaymentCreateSerializer_amount 0 = Inl (ValidationError ''Amount must be greater than zero'')"
  by (simp add: SaleItemCreateSerializer_is_valid_def get_product_def example_db_def
      example_product_def run_decimal_field_def decimal_field_run_validation_def
      decimal_field_accepts_def SaleItem_quantity_field_def validate_method_def
      SaleItemCreateSerializer_def validate_quantity_def PaymentCreateSerializer_amount_def
      PaymentCreateSerializer_def Payments_amount_field_def validate_amount_def)

lemmas save_defs =
  StockMovementCreate_save_def StockMovementCreate_is_valid_def run_decimal_field_def
  decimal_field_run_validation_def decimal_field_accepts_def StockMovement_quantity_field_def
  validate_method_def StockMovementCreate_def StockMovement_objects_create_def


text \<open>
  Claim C9, as amended. An append through \<open>StockMovementCreate_save\<close> does not look at
  the reference id, whatever the kind of the movement. With the reference id absent, the
  append stores the movement, with a null reference id and the kind it declares, exactly
  when the product, the warehouse and the creator exist, the quantity fits 15 digits and
  the identifier is not in the table yet. It raises \<^verbatim>\<open>ValidationError\<close> exactly when
  one of the four field checks fails, and \<^verbatim>\<open>IntegrityError\<close> when they pass and the
  identifier is already used; when it raises, the tables are as they were.
\<close>

theorem append_without_reference_id:
  "let d = data\<lparr>data_sm_reference_id := None\<rparr>;
       m = (movement_of_data data new_id now)\<lparr>sm_reference_id := None\<rparr>;
       fields_ok = (get_product db (data_sm_product data) \<noteq> None
                    \<and> get_warehouse db (data_sm_warehouse data) \<noteq> None
                    \<and> \<bar>data_sm_quantity data\<bar> < 10 ^ 15
                    \<and> data_sm_created_by data \<in> set (users db));
       fresh = (new_id \<notin> sm_id ` set (stock_movements db));
       result = StockMovementCreate_save db d new_id now
   in (fields_ok \<and> fresh \<longrightarrow>
         result = Inr (db\<lparr>stock_movements := stock_movements db @ [m]\<rparr>)
         \<and> sm_reference_id m = None \<and> sm_movement_type m = data_sm_movement_type data)
      \<and> (fields_ok \<and> \<not> fresh \<longrightarrow> result = Inl IntegrityError)
      \<and> (\<not> fields_ok \<longrightarrow> (\<exists>field. result = Inl (ValidationError field)))
      \<and> (\<not> (fields_ok \<and> fresh) \<longrightarrow> database_after db result = db)"
proof -
  let ?d = "data\<lparr>data_sm_reference_id := None\<rparr>"
  let ?m = "(movement_of_data data new_id now)\<lparr>sm_reference_id := None\<rparr>"
  let ?ok = "get_product db (data_sm_product data) \<noteq> None
             \<and> get_warehouse db (data_sm_warehouse data) \<noteq> None
             \<and> \<bar>data_sm_quantity data\<bar> < 10 ^ 15
             \<and> data_sm_created_by data \<in> set (users db)"
  let ?fresh = "new_id \<notin> sm_id ` set (stock_movements db)"
  let ?r = "StockMovementCreate_save db ?d new_id now"
  have valid: "StockMovementCreate_is_valid db ?d = Inr ?d" if ?ok
    using that by (simp add: save_defs)
  have invalid: "\<exists>field. StockMovementCreate_is_valid db ?d = Inl (ValidationError field)"
    if "\<not> ?ok"
    using that by (auto simp: save_defs)
  have stored: "?r = Inr (db\<lparr>stock_movements := stock_movements db @ [?m]\<rparr>)"
    if ?ok ?fresh
    using valid [OF that(1)] that(2)
    by (simp add: StockMovementCreate_save_def StockMovement_objects_create_def
        movement_of_data_def)
  have stale: "?r = Inl IntegrityError" if ?ok "\<not> ?fresh"
    using valid [OF that(1)] that(2)
    by (simp add: StockMovementCreate_save_def StockMovement_objects_create_def)
  have refused: "\<exists>field. ?r = Inl (ValidationError field)" if "\<not> ?ok"
    using invalid [OF that] by (auto simp: StockMovementCreate_save_def)
  have kept: "database_after db ?r = db" if "\<not> (?ok \<and> ?fresh)"
  proof (cases ?ok)
    case True
    with that stale show ?thesis by (simp add: database_after_def)
  next
    case False
    from refused [OF False] show ?thesis by (auto simp: database_after_def)
  qed
  have m: "sm_reference_id ?m = None" "sm_movement_type ?m = data_sm_movement_type data"
    by (simp_all add: movement_of_data_def)
  show ?thesis
    unfolding Let_def using stored stale refused kept m by blast
qed


theorem append_without_reference_id_witness:
  "StockMovementCreate_save (example_db []) example_sale_movement_data 105 7 =
     Inr ((example_db [])\<lparr>stock_movements :=
            [(movement_of_data example_sale_movement_data 105 7)\<lparr>sm_reference_id := None\<rparr>]\<rparr>)
   \<and> sm_movement_type
        ((movement_of_data example_sale_movement_data 105 7)\<lparr>sm_reference_id := None\<rparr>) = MT_SALE
   \<and> StockMovementCreate_save (example_db [example_movement 105 1 MT_IN 10000 1])
        example_sale_movement_data 105 7 = Inl IntegrityError
   \<and> database_after (example_db [example_movement 105 1 MT_IN 10000 1])
        (StockMovementCreate_save (example_db [example_movement 105 1 MT_IN 10000 1])
           example_sale_movement_data 105 7) = example_db [example_movement 105 1 MT_IN 10000 1]
   \<and> (\<exists>field. StockMovementCreate_save (example_db [])
                  (example_sale_movement_data\<lparr>data_sm_product := 2\<rparr>) 105 7 =
                Inl (ValidationError field))"
proof -
  have d: "example_sale_movement_data\<lparr>data_sm_reference_id := None\<rparr> = example_sale_movement_data"
    "example_sale_movement_data\<lparr>data_sm_product := 2, data_sm_reference_id := None\<rparr> =
       example_sale_movement_data\<lparr>data_sm_product := 2\<rparr>"
    by (simp_all add: example_sale_movement_data_def)
  have ok: "get_product (example_db ms) (data_sm_product example_sale_movement_data) \<noteq> None
      \<and> get_warehouse (example_db ms) (data_sm_warehouse example_sale_movement_data) \<noteq> None
      \<and> \<bar>data_sm_quantity example_sale_movement_data\<bar> < 10 ^ 15
      \<and> data_sm_created_by example_sale_movement_data \<in> set (users (example_db ms))" for ms
    by (simp add: example_sale_movement_data_def example_db_def get_product_def
        get_warehouse_def example_product_def example_warehouse_def)
  have fresh: "105 \<notin> sm_id ` set (stock_movements (example_db []))"
    and stale: "\<not> 105 \<notin> sm_id ` set (stock_movements
                   (example_db [example_movement 105 1 MT_IN 10000 1]))"
    by (simp_all add: example_db_def example_movement_def)
  have bad: "\<not> (get_product (example_db [])
                  (data_sm_product (example_sale_movement_data\<lparr>data_sm_product := 2\<rparr>)) \<noteq> None
      \<and> get_warehouse (example_db [])
          (data_sm_warehouse (example_sale_movement_data\<lparr>data_sm_product := 2\<rparr>)) \<noteq> None
      \<and> \<bar>data_sm_quantity (example_sale_movement_data\<lparr>data_sm_product := 2\<rparr>)\<bar> < 10 ^ 15
      \<and> data_sm_created_by (example_sale_movement_data\<lparr>data_sm_product := 2\<rparr>)
          \<in> set (users (example_db [])))"
    by (simp add: example_db_def get_product_def example_product_def)
  note t1 = append_without_reference_id
    [where db = "example_db []" and data = example_sale_movement_data
       and new_id = 105 and now = 7, unfolded Let_def d]
  note t2 = append_without_reference_id
    [where db = "example_db [example_movement 105 1 MT_IN 10000 1]"
       and data = example_sale_movement_data and new_id = 105 and now = 7, unfolded Let_def d]
  note t3 = append_without_reference_id
    [where db = "example_db []" and data = "example_sale_movement_data\<lparr>data_sm_product := 2\<rparr>"
       and new_id = 105 and now = 7, unfolded Let_def d]
  have a: "StockMovementCreate_save (example_db []) example_sale_movement_data 105 7 =
     Inr ((example_db [])\<lparr>stock_movements :=
            [(movement_of_data example_sale_movement_data 105 7)\<lparr>sm_reference_id := None\<rparr>]\<rparr>)"
    and a': "sm_movement_type
        ((movement_of_data example_sale_movement_data 105 7)\<lparr>sm_reference_id := None\<rparr>) = MT_SALE"
    using t1 ok [of "[]"] fresh
    by (simp_all add: example_db_def example_sale_movement_data_def)
  have b: "StockMovementCreate_save (example_db [example_movement 105 1 MT_IN 10000 1])
        example_sale_movement_data 105 7 = Inl IntegrityError"
    and b': "database_after (example_db [example_movement 105 1 MT_IN 10000 1])
        (StockMovementCreate_save (example_db [example_movement 105 1 MT_IN 10000 1])
           example_sale_movement_data 105 7) = example_db [example_movement 105 1 MT_IN 10000 1]"
    using t2 ok [of "[example_movement 105 1 MT_IN 10000 1]"] stale by blast+
  have c: "\<exists>field. StockMovementCreate_save (example_db [])
                  (example_sale_movement_data\<lparr>data_sm_product := 2\<rparr>) 105 7 =
                Inl (ValidationError field)"
    using t3 bad by blast
  from a a' b b' c show ?thesis by blast
qed

text \<open>
  The claim as stated fails: a movement of kind SALE with reference type SALE and no
  reference id is validated and stored.
\<close>

theorem sale_movement_without_reference_stored:
  "data_sm_movement_type example_sale_movement_data = MT_SALE
   \<and> data_sm_reference_id example_sale_movement_data = None
   \<and> StockMovementCreate_save (example_db []) example_sale_movement_data 105 7 =
       Inr (example_db
         [\<lparr>sm_id = 105, sm_product = 1, sm_warehouse = 1, sm_movement_type = MT_SALE,
           sm_quantity = - 4000, sm_reference_type = MR_SALE, sm_reference_id = None,
           sm_created_by = 9, sm_created_at = 7\<rparr>])"
  by (simp add: StockMovementCreate_save_def StockMovementCreate_is_valid_def
      run_decimal_field_def decimal_field_run_validation_def decimal_field_accepts_def
      StockMovement_quantity_field_def validate_method_def StockMovementCreate_def
      StockMovement_objects_create_def movement_of_data_def example_sale_movement_data_def
      example_db_def get_product_def get_warehouse_def example_product_def
      example_warehouse_def)

section \<open>Properties of the decimal fields\<close>

lemma subtotal_accepts: "decimal_field_accepts Sale_subtotal_field v \<longleftrightarrow> \<bar>v\<bar> \<le> 99999"
  by (simp add: decimal_field_accepts_def Sale_subtotal_field_def; arith)

text \<open>
  Claim C10. \<^verbatim>\<open>Sale.subtotal\<close> holds at most 5 digits, 2 of them after the point: its
  values are those up to 999.99 in absolute value (99999 hundredths), while
  \<^verbatim>\<open>grand_total\<close>, \<^verbatim>\<open>tax_total\<close> and \<^verbatim>\<open>discount_total\<close> hold 15 digits. Hence for
  every sale row the table can hold whose line totals sum to 1000.00 or more, the stored
  subtotal differs from the recomputation from the line items.
\<close>

theorem subtotal_cannot_hold_1000:
  "(decimal_field_accepts Sale_subtotal_field v \<longleftrightarrow> \<bar>v\<bar> \<le> 99999)
   \<and> (decimal_field_accepts Sale_grand_total_field v \<longleftrightarrow> \<bar>v\<bar> \<le> 999999999999999)
   \<and> (decimal_field_accepts Sale_tax_total_field v \<longleftrightarrow> \<bar>v\<bar> \<le> 999999999999999)
   \<and> (decimal_field_accepts Sale_discount_total_field v \<longleftrightarrow> \<bar>v\<bar> \<le> 999999999999999)
   \<and> (sale_storable s \<longrightarrow> 100000 \<le> recomputed_subtotal tbl s \<longrightarrow>
        sale_subtotal s \<noteq> recomputed_subtotal tbl s)"
proof (intro conjI impI)
  show "decimal_field_accepts Sale_subtotal_field v \<longleftrightarrow> \<bar>v\<bar> \<le> 99999"
    by (rule subtotal_accepts)
  show "decimal_field_accepts Sale_grand_total_field v \<longleftrightarrow> \<bar>v\<bar> \<le> 999999999999999"
    by (simp add: decimal_field_accepts_def Sale_grand_total_field_def; arith)
  show "decimal_field_accepts Sale_tax_total_field v \<longleftrightarrow> \<bar>v\<bar> \<le> 999999999999999"
    by (simp add: decimal_field_accepts_def Sale_tax_total_field_def; arith)
  show "decimal_field_accepts Sale_discount_total_field v \<longleftrightarrow> \<bar>v\<bar> \<le> 999999999999999"
    by (simp add: decimal_field_accepts_def Sale_discount_total_field_def; arith)
next
  assume st: "sale_storable s" and big: "100000 \<le> recomputed_subtotal tbl s"
  from st have "\<bar>sale_subtotal s\<bar> \<le> 99999"
    by (simp add: sale_storable_def subtotal_accepts)
  with big show "sale_subtotal s \<noteq> recomputed_subtotal tbl s"
    by linarith
qed

theorem subtotal_cannot_hold_1000_witness:
  "sale_storable (example_sale 99999 PENDING)
   \<and> recomputed_subtotal [example_item 61 120000 5000 60000, example_item 62 80000 5000 40000]
        (example_sale 99999 PENDING) = 100000
   \<and> sale_subtotal (example_sale 99999 PENDING) \<noteq>
       recomputed_subtotal [example_item 61 120000 5000 60000, example_item 62 80000 5000 40000]
         (example_sale 99999 PENDING)
   \<and> \<not> decimal_field_accepts Sale_subtotal_field 100000
   \<and> decimal_field_accepts Sale_grand_total_field 100000"
proof -
  let ?s = "example_sale 99999 PENDING"
  let ?tbl = "[example_item 61 120000 5000 60000, example_item 62 80000 5000 40000]"
  have st: "sale_storable ?s"
    by (simp add: sale_storable_def example_sale_def decimal_field_accepts_def
        Sale_subtotal_field_def Sale_tax_total_field_def Sale_discount_total_field_def
        Sale_grand_total_field_def)
  have rc: "recomputed_subtotal ?tbl ?s = 100000"
    by (simp add: recomputed_subtotal_def sale_items_of_def example_item_def example_sale_def)
  note t = subtotal_cannot_hold_1000 [of 100000 ?s ?tbl]
  have ne: "sale_subtotal ?s \<noteq> recomputed_subtotal ?tbl ?s"
    using t st rc by simp
  have "\<not> decimal_field_accepts Sale_subtotal_field 100000"
    and "decimal_field_accepts Sale_grand_total_field 100000"
    using t by simp_all
  with st rc ne show ?thesis by simp
qed

section \<open>Properties of the interface\<close>

lemma StockMovementAdmin_save_form_old: "StockMovementAdmin_save_form old posted = old"
  by (simp add: StockMovementAdmin_save_form_def StockMovementAdmin_readonly_fields_def
      form_value_def)

lemma LedgerEntryAdmin_save_form_old: "LedgerEntryAdmin_save_form old posted = old"
  by (simp add: LedgerEntryAdmin_save_form_def LedgerEntryAdmin_readonly_fields_def
      form_value_def)

lemma SaleItemAdmin_save_form_old: "SaleItemAdmin_save_form old posted = old"
  by (simp add: SaleItemAdmin_save_form_def SaleItemAdmin_readonly_fields_def form_value_def)

lemma movement_change_rows:
  "map (\<lambda>m. if sm_id m = object_id then StockMovementAdmin_save_form m posted else m) xs = xs"
  by (induction xs) (simp_all add: StockMovementAdmin_save_form_old)

lemma ledger_change_rows:
  "map (\<lambda>e. if le_id e = object_id then LedgerEntryAdmin_save_form e posted else e) xs = xs"
  by (induction xs) (simp_all add: LedgerEntryAdmin_save_form_old)

lemma sale_item_change_rows:
  "map (\<lambda>it. if si_id it = object_id then SaleItemAdmin_save_form it posted else it) xs = xs"
  by (induction xs) (simp_all add: SaleItemAdmin_save_form_old)

lemma dispatch_events:
  assumes "StockMovementViewSet_dispatch db request new_id now = Inr (rows, db')"
  shows "(\<exists>new. stock_movements db' = stock_movements db @ new)
         \<and> ledger_entries db' = ledger_entries db \<and> sale_items db' = sale_items db
         \<and> sales db' = sales db"
proof (cases "request_method request")
  case GET
  with assms show ?thesis
    by (auto simp: StockMovementViewSet_dispatch_def http_method_names_def movement_list_def
        movement_retrieve_def split: option.splits sum.splits)
next
  case POST
  with assms show ?thesis
    by (auto simp: StockMovementViewSet_dispatch_def http_method_names_def movement_create_def
        StockMovement_objects_create_def split: option.splits sum.splits if_splits)
qed (use assms in \<open>simp_all add: StockMovementViewSet_dispatch_def http_method_names_def\<close>)

lemma perform_events:
  assumes "perform db op = Inr db'"
  shows "(\<exists>new. stock_movements db' = stock_movements db @ new)
         \<and> ledger_entries db' = ledger_entries db"
proof (cases op)
  case (MovementApi request new_id now)
  with assms dispatch_events [of db request new_id now] show ?thesis
    by (auto split: sum.splits prod.splits)
next
  case (MovementAdminChange perm object_id posted)
  with assms show ?thesis
    by (auto simp: StockMovementAdmin_change_view_def movement_change_rows
        split: if_splits option.splits)
next
  case (LedgerAdminChange perm object_id posted)
  with assms show ?thesis
    by (auto simp: LedgerEntryAdmin_change_view_def ledger_change_rows
        split: if_splits option.splits)
qed (use assms in \<open>auto simp: StockMovementAdmin_add_view_def StockMovementAdmin_has_add_permission_def
      StockMovementAdmin_delete_view_def StockMovementAdmin_has_delete_permission_def
      LedgerEntryAdmin_add_view_def LedgerEntryAdmin_has_add_permission_def
      LedgerEntryAdmin_delete_view_def LedgerEntryAdmin_has_delete_permission_def
      ProductAdmin_change_view_def SaleAdmin_change_view_def SaleItemInline_has_delete_permission_def
      SaleAdmin_delete_view_def
      SaleItemAdmin_add_view_def SaleItemAdmin_change_view_def SaleItemAdmin_delete_view_def
      delete_product_def delete_warehouse_def delete_account_def delete_user_def
      split: if_splits option.splits\<close>)

lemma step_events:
  "(\<exists>new. stock_movements (step db op) = stock_movements db @ new)
   \<and> ledger_entries (step db op) = ledger_entries db"
proof (cases "perform db op")
  case (Inl e)
  then show ?thesis by (simp add: step_def)
next
  case (Inr db')
  with perform_events [OF Inr] show ?thesis by (simp add: step_def)
qed

lemma run_snoc: "run db (ops @ [op]) = step (run db ops) op"
  by (simp add: run_def)


text \<open>
  Claim C7. No operation of the interface updates or deletes a stock movement or a ledger
  entry: after any sequence of requests to the movement API (which answers PUT, PATCH and
  DELETE with 405), of admin views (whose event fields are all read-only and whose
  deletions are refused) and of deletions of reference data (refused while an event points
  to it), the movements that were in the table are still there, unchanged and in place,
  followed by those appended since, and the ledger entries are exactly the same.
\<close>

theorem events_never_updated_or_deleted:
  "(\<exists>new. stock_movements (run db ops) = stock_movements db @ new)
   \<and> ledger_entries (run db ops) = ledger_entries db"
proof (induction ops rule: rev_induct)
  case Nil
  show ?case by (simp add: run_def)
next
  case (snoc op ops)
  from snoc obtain new where n: "stock_movements (run db ops) = stock_movements db @ new"
    and l: "ledger_entries (run db ops) = ledger_entries db"
    by blast
  from step_events [of "run db ops" op] obtain new' where
    "stock_movements (step (run db ops) op) = stock_movements (run db ops) @ new'"
    "ledger_entries (step (run db ops) op) = ledger_entries (run db ops)"
    by blast
  with n l show ?case by (simp add: run_snoc)
qed

lemma perform_items:
  assumes "perform db op = Inr db'"
  shows "set (sale_items db') \<subseteq> set (sale_items db)"
proof (cases op)
  case (MovementApi request new_id now)
  with assms dispatch_events [of db request new_id now] show ?thesis
    by (auto split: sum.splits prod.splits)
next
  case (SaleItemAdminChange perm object_id posted)
  with assms show ?thesis
    by (auto simp: SaleItemAdmin_change_view_def sale_item_change_rows
        split: if_splits option.splits)
qed (use assms in \<open>auto simp: StockMovementAdmin_add_view_def StockMovementAdmin_has_add_permission_def
      StockMovementAdmin_delete_view_def StockMovementAdmin_has_delete_permission_def
      StockMovementAdmin_change_view_def LedgerEntryAdmin_change_view_def
      LedgerEntryAdmin_add_view_def LedgerEntryAdmin_has_add_permission_def
      LedgerEntryAdmin_delete_view_def LedgerEntryAdmin_has_delete_permission_def
      ProductAdmin_change_view_def SaleAdmin_change_view_def SaleItemInline_has_delete_permission_def
      SaleAdmin_delete_view_def
      SaleItemAdmin_add_view_def SaleItemAdmin_has_add_permission_def
      SaleItemAdmin_delete_view_def
      delete_product_def delete_warehouse_def delete_account_def delete_user_def
      split: if_splits option.splits\<close>)



lemma step_items: "set (sale_items (step db op)) \<subseteq> set (sale_items db)"
  using perform_items [of db op] by (cases "perform db op") (simp_all add: step_def)

lemma run_items: "set (sale_items (run db ops)) \<subseteq> set (sale_items db)"
proof (induction ops rule: rev_induct)
  case Nil
  show ?case by (simp add: run_def)
next
  case (snoc op ops)
  with step_items [of "run db ops" op] show ?case
    unfolding run_snoc by blast
qed


section \<open>Properties of the completion of a sale\<close>

lemmas scenario_defs =
  scenario_db_def example_db_def example_sale_def example_item_def example_product_def
  example_movement_def example_warehouse_def get_sale_def get_product_def sale_items_of_def
  tracks_stock_def current_stock_def

lemma validate_items_insufficient:
  assumes "list_ex (\<lambda>it. tracks_stock db it
             \<and> current_stock db (si_product it) (sale_warehouse s) < si_quantity it) items"
  shows "validate_items db s user gen now pending items = Inl InsufficientStockError"
  using assms by (induction items arbitrary: pending) auto

text \<open>
  Claim C2. For a sale in PENDING state, if the stock check fails for some item whose
  product tracks stock (the stock of its product in the sale's warehouse is less than its
  quantity), \<open>complete\<close> fails with \<open>InsufficientStockError\<close> and the database after
  the call is the database before it: no movement, no ledger entry, no change of status
  and no audit log, whatever the place of the failing item among the items.
\<close>

theorem insufficient_stock_no_effects:
  assumes "get_sale db sid = Some s" and "sale_status s = PENDING"
    and "list_ex (\<lambda>it. tracks_stock db it
             \<and> current_stock db (si_product it) (sale_warehouse s) < si_quantity it)
           (sale_items_of (sale_items db) s)"
  shows "complete db user revenue_account gen now sid = (Some InsufficientStockError, db)"
proof -
  from assms(3) have "sale_items_of (sale_items db) s \<noteq> []"
    by auto
  with assms(1,2) validate_items_insufficient [OF assms(3)] show ?thesis
    by (simp add: complete_def)
qed

theorem insufficient_stock_no_effects_witness:
  "complete (scenario_db [example_item 61 4000 5000 2000, example_item 62 15000 5000 7500])
     9 7 (\<lambda>n. 200 + n) 20 50 =
   (Some InsufficientStockError,
    scenario_db [example_item 61 4000 5000 2000, example_item 62 15000 5000 7500])"
proof -
  let ?db = "scenario_db [example_item 61 4000 5000 2000, example_item 62 15000 5000 7500]"
  have 1: "get_sale ?db 50 = Some (example_sale 2000 PENDING)"
    by (simp add: scenario_defs)
  have 2: "sale_status (example_sale 2000 PENDING) = PENDING"
    by (simp add: example_sale_def)
  have 3: "list_ex (\<lambda>it. tracks_stock ?db it
             \<and> current_stock ?db (si_product it) (sale_warehouse (example_sale 2000 PENDING))
                 < si_quantity it)
           (sale_items_of (sale_items ?db) (example_sale 2000 PENDING))"
    by (simp add: scenario_defs)
  show ?thesis
    by (rule insufficient_stock_no_effects [OF 1 2 3])
qed

lemma validate_items_result:
  assumes "validate_items db s user gen now pending items = Inr movements"
  shows "\<exists>new. movements = pending @ new
           \<and> length new = length (filter (tracks_stock db) items)
           \<and> list_all (\<lambda>m. sm_movement_type m = MT_SALE
                            \<and> sm_reference_id m = Some (sale_id s)) new"
  using assms
proof (induction items arbitrary: pending)
  case Nil
  then show ?case by simp
next
  case (Cons it its)
  show ?case
  proof (cases "tracks_stock db it")
    case False
    with Cons show ?thesis by simp
  next
    case True
    with Cons.prems have
      v: "validate_items db s user gen now
            (pending @ [sale_movement (gen (length pending)) s user now it]) its = Inr movements"
      by (simp split: if_splits)
    from Cons.IH [OF v] obtain new where
      "movements = (pending @ [sale_movement (gen (length pending)) s user now it]) @ new"
      "length new = length (filter (tracks_stock db) its)"
      "list_all (\<lambda>m. sm_movement_type m = MT_SALE \<and> sm_reference_id m = Some (sale_id s)) new"
      by blast
    with True show ?thesis
      by (intro exI [where x = "sale_movement (gen (length pending)) s user now it # new"])
         (simp add: sale_movement_def)
  qed
qed

lemma find_map_replace:
  assumes "find P xs = Some x" and "P y"
  shows "find P (map (\<lambda>z. if P z then y else z) xs) = Some y"
  using assms by (induction xs) (auto split: if_splits)

text \<open>
  Claim C4. When \<open>complete\<close> has succeeded on a sale, a second call (by any user, with
  any revenue account and at any time) is rejected with \<open>InvalidStateError\<close> and leaves
  the database as the first call left it: it holds the movements of the first call, all of
  kind SALE and referencing the sale, and its one ledger entry, once.
\<close>

theorem complete_twice_rejected:
  assumes "complete db user revenue_account gen now sid = (None, db')"
  shows "complete db' user2 revenue_account2 gen2 now2 sid = (Some InvalidStateError, db')
         \<and> (\<exists>movements entry.
               stock_movements db' = stock_movements db @ movements
               \<and> list_all (\<lambda>m. sm_movement_type m = MT_SALE \<and> sm_reference_id m = Some sid)
                    movements
               \<and> ledger_entries db' = ledger_entries db @ [entry]
               \<and> le_reference_type entry = LR_SALE \<and> le_reference_id entry = sid)"
proof -
  from assms obtain s where s: "get_sale db sid = Some s"
    by (auto simp: complete_def split: option.splits)
  then have sid: "sale_id s = sid"
    by (auto simp: get_sale_def find_Some_iff)
  from assms s have pending: "sale_status s = PENDING"
    and nonempty: "sale_items_of (sale_items db) s \<noteq> []"
    by (auto simp: complete_def split: if_splits)
  from assms s pending nonempty obtain movements where
    v: "validate_items db s user gen now [] (sale_items_of (sale_items db) s) = Inr movements"
    by (auto simp: complete_def split: sum.splits)
  let ?entry = "\<lparr>le_id = gen (length movements), le_account = revenue_account,
                  le_amount = sale_grand_total s, le_reference_type = LR_SALE,
                  le_reference_id = sid, le_created_at = now\<rparr>"
  let ?completed = "s\<lparr>sale_status := COMPLETED\<rparr>"
  from assms s pending nonempty v have
    m: "stock_movements db' = stock_movements db @ movements"
    and l: "ledger_entries db' = ledger_entries db @ [?entry]"
    and sl: "sales db' = map (\<lambda>x. if sale_id x = sid then ?completed else x) (sales db)"
    by (auto simp: complete_def Let_def)
  from s sid have "get_sale db' sid = Some ?completed"
    unfolding get_sale_def sl
    by (intro find_map_replace [where P = "\<lambda>x. sale_id x = sid"]) simp_all
  then have second: "complete db' user2 revenue_account2 gen2 now2 sid = (Some InvalidStateError, db')"
    by (simp add: complete_def)
  from validate_items_result [OF v] sid have
    "list_all (\<lambda>m. sm_movement_type m = MT_SALE \<and> sm_reference_id m = Some sid) movements"
    by auto
  with second m l show ?thesis by auto
qed

lemma scenario_a_first:
  "fst (complete (scenario_db [example_item 61 4000 5000 2000]) 9 7 (\<lambda>n. 200 + n) 20 50) = None"
  by (simp add: complete_def scenario_defs Let_def)

theorem complete_twice_rejected_witness:
  "fst (complete (scenario_db [example_item 61 4000 5000 2000]) 9 7 (\<lambda>n. 200 + n) 20 50) = None
   \<and> complete
       (snd (complete (scenario_db [example_item 61 4000 5000 2000]) 9 7 (\<lambda>n. 200 + n) 20 50))
       9 7 (\<lambda>n. 300 + n) 21 50 =
     (Some InvalidStateError,
      snd (complete (scenario_db [example_item 61 4000 5000 2000]) 9 7 (\<lambda>n. 200 + n) 20 50))
   \<and> map sm_quantity (stock_movements
       (snd (complete (scenario_db [example_item 61 4000 5000 2000]) 9 7 (\<lambda>n. 200 + n) 20 50)))
     = [10000, - 4000]
   \<and> map le_amount (ledger_entries
       (snd (complete (scenario_db [example_item 61 4000 5000 2000]) 9 7 (\<lambda>n. 200 + n) 20 50)))
     = [2000]"
proof -
  let ?c = "complete (scenario_db [example_item 61 4000 5000 2000]) 9 7 (\<lambda>n. 200 + n) 20 50"
  have h: "?c = (None, snd ?c)"
    using scenario_a_first by (metis prod.collapse)
  note t = complete_twice_rejected [OF h, of 9 7 "\<lambda>n. 300 + n" 21]
  have m: "map sm_quantity (stock_movements (snd ?c)) = [10000, - 4000]"
    by (simp add: complete_def scenario_defs Let_def sale_movement_def)
  have l: "map le_amount (ledger_entries (snd ?c)) = [2000]"
    by (simp add: complete_def scenario_defs Let_def sale_movement_def)
  from scenario_a_first t [THEN conjunct1] m l show ?thesis
    by (intro conjI)
qed

section \<open>Properties of the unit price of a sale item\<close>



























end
